theory Spec2Isabelle
  imports Complex_Main "HOL-Library.Sublist" "HOL-Library.Multiset"
begin

section \<open>Data model of the trading simulator\<close>

text \<open>
  The simulator of \<^verbatim>\<open>README.md\<close> (component \<^verbatim>\<open>TradingSimulator\<close>) replays a list of
  daily gold prices against a parameter record. JavaScript numbers are modelled as
  \<^typ>\<open>real\<close>: rounding is abstracted away, and the model agrees with the program up
  to rounding wherever no division by zero occurs (prices are positive). Where a
  statement depends on rounding, the arithmetic is given in binary64 as well. Counters
  that only ever hold non-negative integers are \<^typ>\<open>nat\<close>.

  Several TypeScript types share field names; record fields carry a short prefix that
  names their type: \<open>p_\<close> for an entry of \<^verbatim>\<open>activePositions\<close>, \<open>t_\<close> for
  \<^verbatim>\<open>TradeData\<close>, \<open>o_\<close> for \<^verbatim>\<open>OpenPosition\<close>, \<open>r_\<close> for \<^verbatim>\<open>SimulationResults\<close>.
  The local variables of \<^verbatim>\<open>runSimulation\<close> are the fields of \<open>sim_state\<close>.
\<close>

record GoldPriceDataType =
  currentPrice :: real
  openingPrice :: real
  highestPrice :: real
  lowestPrice :: real
  date :: string

record SimulationParams =
  investmentCapital :: real
  positionSizePercent :: real
  leverage :: real
  stopLossDollar :: real
  minPriceMovement :: real
  dailyFeePercent :: real
  useTrailingStop :: bool

record Position =
  p_entryPrice :: real
  p_entryDate :: string
  p_highestPrice :: real
  p_baseAmount :: real
  p_leveragedAmount :: real
  p_accumulatedFees :: real
  p_lastFeeDate :: string
  p_remainingCapitalAtEntry :: real

record TradeData =
  t_entry :: string
  t_exit :: string
  t_entryPrice :: real
  t_exitPrice :: real
  t_highestPrice :: real
  t_baseAmount :: real
  t_leveragedAmount :: real
  t_pnl :: real
  t_fees :: real
  t_daysHeld :: real
  t_remainingCapital :: real
  t_capitalAtEntry :: real

record OpenPosition =
  o_entryDate :: string
  o_entryPrice :: real
  o_currentPrice :: real
  o_highestPrice :: real
  o_baseAmount :: real
  o_leveragedAmount :: real
  o_unrealizedPnl :: real
  o_accumulatedFees :: real
  o_capitalAtEntry :: real

record SimulationResults =
  r_finalCapital :: real
  r_totalProfitLoss :: real
  r_totalTrades :: nat
  r_totalFees :: real
  r_equityCurve :: "(string \<times> real) list"
  r_tradeHistory :: "TradeData list"
  r_successRate :: real
  r_maxDrawdown :: real
  r_maxConsecutiveLosses :: nat
  r_avgProfitPerTrade :: real
  r_openPositions :: "OpenPosition list"
  r_skippedTrades :: nat

record sim_state =
  currentCapital :: real
  totalProfitLoss :: real
  tradesExecuted :: nat
  totalFees :: real
  consecutiveLosses :: nat
  maxConsecutiveLosses :: nat
  skippedTrades :: nat
  equityCurve :: "(string \<times> real) list"
  tradeHistory :: "TradeData list"
  openPositions :: "OpenPosition list"
  activePositions :: "Position list"
  currentDate :: "string option"

text \<open>
  \<^verbatim>\<open>runSimulation\<close> either alerts and returns on invalid parameters, or throws a
  \<^verbatim>\<open>TypeError\<close> when it reads the last element of an empty price history.
\<close>

datatype sim_error = InvalidParameters | TypeError

section \<open>The helper functions\<close>

definition validateParams :: "SimulationParams \<Rightarrow> bool" where
  "validateParams params =
     (if investmentCapital params \<le> 0 then False
      else if positionSizePercent params \<le> 0 \<or> positionSizePercent params > 100 then False
      else if leverage params \<le> 0 \<or> leverage params > 200 then False
      else if stopLossDollar params \<le> 0 then False
      else if minPriceMovement params < 0 then False
      else if dailyFeePercent params < 0 then False
      else True)"

definition shouldOpenPosition :: "real \<Rightarrow> real \<Rightarrow> real \<Rightarrow> bool" where
  "shouldOpenPosition cur prev threshold =
     (let priceMovement = ((cur - prev) / prev) * 100
      in priceMovement \<ge> threshold)"

definition isStopLossTriggered :: "real \<Rightarrow> real \<Rightarrow> real \<Rightarrow> real \<Rightarrow> bool \<Rightarrow> bool" where
  "isStopLossTriggered cur highest leveragedAmount stopLossAmount useTrailing =
     (if \<not> useTrailing then False
      else
        (let percentageDropFromHighest = (highest - cur) / highest;
             dollarLoss = leveragedAmount * percentageDropFromHighest
         in dollarLoss \<ge> stopLossAmount))"

definition calculateStopLossPrice :: "real \<Rightarrow> real \<Rightarrow> real \<Rightarrow> real" where
  "calculateStopLossPrice highest leveragedAmount stopLossAmount =
     (let percentageDrop = stopLossAmount / leveragedAmount
      in highest * (1 - percentageDrop))"

text \<open>The loop of \<^verbatim>\<open>calculateDrawdown\<close>: running peak and running maximum.\<close>

fun drawdownLoop :: "real \<Rightarrow> real \<Rightarrow> (string \<times> real) list \<Rightarrow> real" where
  "drawdownLoop peak maxDrawdown [] = maxDrawdown"
| "drawdownLoop peak maxDrawdown (point # rest) =
     (if snd point > peak then drawdownLoop (snd point) maxDrawdown rest
      else
        (let drawdown = (peak - snd point) / peak
         in drawdownLoop peak (max maxDrawdown drawdown) rest))"

definition calculateDrawdown :: "(string \<times> real) list \<Rightarrow> real" where
  "calculateDrawdown curve =
     (case curve of
        [] \<Rightarrow> 0
      | first # _ \<Rightarrow> drawdownLoop (snd first) 0 curve)"

section \<open>The simulation loop\<close>

text \<open>
  The daily fee loop over \<^verbatim>\<open>activePositions\<close>. It returns the updated positions, the
  cash and the fee total. The \<^verbatim>\<open>break\<close> of the partial-payment branch leaves the
  positions behind it untouched and does not set \<^verbatim>\<open>lastFeeDate\<close>.
\<close>

fun feeLoop :: "SimulationParams \<Rightarrow> string \<Rightarrow> Position list \<Rightarrow> real \<Rightarrow> real
    \<Rightarrow> Position list \<times> real \<times> real" where
  "feeLoop params d [] cap fees = ([], cap, fees)"
| "feeLoop params d (position # rest) cap fees =
     (if p_lastFeeDate position \<noteq> d then
        (let dailyFee = (dailyFeePercent params / 100) * p_baseAmount position
         in if cap \<ge> dailyFee then
              (case feeLoop params d rest (cap - dailyFee) (fees + dailyFee) of
                 (ps, cap', fees') \<Rightarrow>
                   (position\<lparr>p_accumulatedFees := p_accumulatedFees position + dailyFee,
                              p_lastFeeDate := d\<rparr> # ps, cap', fees'))
            else
              (let feePaid = cap
               in (position\<lparr>p_accumulatedFees := p_accumulatedFees position + feePaid\<rparr> # rest,
                   0, fees + feePaid)))
      else
        (case feeLoop params d rest cap fees of
           (ps, cap', fees') \<Rightarrow> (position # ps, cap', fees')))"

definition feeStep :: "SimulationParams \<Rightarrow> GoldPriceDataType \<Rightarrow> sim_state \<Rightarrow> sim_state" where
  "feeStep params cur st =
     (if currentDate st \<noteq> Some (date cur) then
        (case feeLoop params (date cur) (activePositions st) (currentCapital st) (totalFees st) of
           (ps, cap, fees) \<Rightarrow>
             st\<lparr>currentDate := Some (date cur), activePositions := ps,
                currentCapital := cap, totalFees := fees\<rparr>)
      else st)"

text \<open>
  Closing one position on its stop. \<^verbatim>\<open>calculateDaysHeld\<close> parses dates with the
  JavaScript \<^verbatim>\<open>Date\<close> class; it is the parameter \<open>dh\<close> of the model.
\<close>

definition closeOnStop :: "(string \<Rightarrow> string \<Rightarrow> real) \<Rightarrow> SimulationParams \<Rightarrow> GoldPriceDataType
    \<Rightarrow> Position \<Rightarrow> sim_state \<Rightarrow> sim_state" where
  "closeOnStop dh params cur position st =
     (let exitPrice = calculateStopLossPrice (p_highestPrice position)
                        (p_leveragedAmount position) (stopLossDollar params);
          percentageChange = (exitPrice - p_entryPrice position) / p_entryPrice position;
          pnl = p_leveragedAmount position * percentageChange;
          amountToReturn = p_baseAmount position + pnl;
          cap = currentCapital st + amountToReturn;
          losses = (if pnl < 0 then consecutiveLosses st + 1 else 0)
      in st\<lparr>currentCapital := cap,
            totalProfitLoss := totalProfitLoss st + pnl,
            tradeHistory := tradeHistory st @
              [\<lparr>t_entry = p_entryDate position, t_exit = date cur,
                t_entryPrice = p_entryPrice position, t_exitPrice = exitPrice,
                t_highestPrice = p_highestPrice position,
                t_baseAmount = p_baseAmount position,
                t_leveragedAmount = p_leveragedAmount position,
                t_pnl = pnl, t_fees = p_accumulatedFees position,
                t_daysHeld = dh (p_entryDate position) (date cur),
                t_remainingCapital = cap,
                t_capitalAtEntry = p_remainingCapitalAtEntry position\<rparr>],
            consecutiveLosses := losses,
            maxConsecutiveLosses :=
              (if pnl < 0 then max (maxConsecutiveLosses st) losses
               else maxConsecutiveLosses st)\<rparr>)"

definition updateHighest :: "GoldPriceDataType \<Rightarrow> Position \<Rightarrow> Position" where
  "updateHighest cur position =
     (if highestPrice cur > p_highestPrice position
      then position\<lparr>p_highestPrice := highestPrice cur\<rparr> else position)"

text \<open>
  The loop \<^verbatim>\<open>for (let i = activePositions.length - 1; i >= 0; i--)\<close> visits the
  positions from the last to the first and splices the closed ones out. \<open>exitLoop\<close>
  takes the positions in visiting order (the reversed array) and conses the survivors,
  which restores the array order.
\<close>

fun exitLoop :: "(string \<Rightarrow> string \<Rightarrow> real) \<Rightarrow> SimulationParams \<Rightarrow> GoldPriceDataType
    \<Rightarrow> Position list \<Rightarrow> Position list \<Rightarrow> sim_state \<Rightarrow> Position list \<times> sim_state" where
  "exitLoop dh params cur [] kept st = (kept, st)"
| "exitLoop dh params cur (position0 # rest) kept st =
     (let position = updateHighest cur position0;
          stopLossTriggered = isStopLossTriggered (lowestPrice cur) (p_highestPrice position)
             (p_leveragedAmount position) (stopLossDollar params) (useTrailingStop params)
      in if stopLossTriggered
         then exitLoop dh params cur rest kept (closeOnStop dh params cur position st)
         else exitLoop dh params cur rest (position # kept) st)"

definition exitStep :: "(string \<Rightarrow> string \<Rightarrow> real) \<Rightarrow> SimulationParams \<Rightarrow> GoldPriceDataType
    \<Rightarrow> sim_state \<Rightarrow> sim_state" where
  "exitStep dh params cur st =
     (case exitLoop dh params cur (rev (activePositions st)) [] st of
        (kept, st') \<Rightarrow> st'\<lparr>activePositions := kept\<rparr>)"

definition MIN_TRADING_CAPITAL :: real where
  "MIN_TRADING_CAPITAL = 100"

definition entryStep :: "SimulationParams \<Rightarrow> GoldPriceDataType \<Rightarrow> GoldPriceDataType
    \<Rightarrow> sim_state \<Rightarrow> sim_state" where
  "entryStep params previousData cur st =
     (if currentCapital st \<ge> MIN_TRADING_CAPITAL then
        (let shouldOpen = shouldOpenPosition (openingPrice cur) (openingPrice previousData)
                            (minPriceMovement params)
         in if shouldOpen then
              (let baseAmount = min ((positionSizePercent params / 100) * currentCapital st)
                                    (currentCapital st)
               in if baseAmount \<ge> 1 then
                    (let leveragedAmount = baseAmount * leverage params
                     in st\<lparr>activePositions := activePositions st @
                             [\<lparr>p_entryPrice = openingPrice cur, p_entryDate = date cur,
                               p_highestPrice = highestPrice cur,
                               p_baseAmount = baseAmount,
                               p_leveragedAmount = leveragedAmount,
                               p_accumulatedFees = 0, p_lastFeeDate = date cur,
                               p_remainingCapitalAtEntry = currentCapital st\<rparr>],
                           currentCapital := currentCapital st - baseAmount,
                           tradesExecuted := tradesExecuted st + 1\<rparr>)
                  else st)
            else st)
      else if shouldOpenPosition (openingPrice cur) (openingPrice previousData)
                (minPriceMovement params)
      then st\<lparr>skippedTrades := skippedTrades st + 1\<rparr>
      else st)"

definition unrealizedPnL :: "real \<Rightarrow> Position \<Rightarrow> real" where
  "unrealizedPnL price pos =
     p_leveragedAmount pos * ((price - p_entryPrice pos) / p_entryPrice pos)"

definition equityStep :: "GoldPriceDataType \<Rightarrow> sim_state \<Rightarrow> sim_state" where
  "equityStep cur st =
     st\<lparr>equityCurve := equityCurve st @
        [(date cur,
          currentCapital st +
          foldl (\<lambda>sum pos. sum + p_baseAmount pos + unrealizedPnL (currentPrice cur) pos)
            0 (activePositions st))]\<rparr>"

definition processDay :: "(string \<Rightarrow> string \<Rightarrow> real) \<Rightarrow> SimulationParams \<Rightarrow> GoldPriceDataType
    \<Rightarrow> GoldPriceDataType \<Rightarrow> sim_state \<Rightarrow> sim_state" where
  "processDay dh params previousData cur st =
     equityStep cur (entryStep params previousData cur (exitStep dh params cur (feeStep params cur st)))"

text \<open>
  The main loop, from index 1, with the element before the current one; the
  \<^verbatim>\<open>break\<close> on exhausted capital ends it.
\<close>

fun dayLoop :: "(string \<Rightarrow> string \<Rightarrow> real) \<Rightarrow> SimulationParams \<Rightarrow> GoldPriceDataType
    \<Rightarrow> GoldPriceDataType list \<Rightarrow> sim_state \<Rightarrow> sim_state" where
  "dayLoop dh params previousData [] st = st"
| "dayLoop dh params previousData (cur # rest) st =
     (if currentCapital st \<le> 0 \<and> activePositions st = [] then st
      else dayLoop dh params cur rest (processDay dh params previousData cur st))"

definition closeAtEnd :: "(string \<Rightarrow> string \<Rightarrow> real) \<Rightarrow> real \<Rightarrow> string \<Rightarrow> Position
    \<Rightarrow> sim_state \<Rightarrow> sim_state" where
  "closeAtEnd dh lastPrice lastDate position st =
     (let percentageChange = (lastPrice - p_entryPrice position) / p_entryPrice position;
          pnl = p_leveragedAmount position * percentageChange;
          amountToReturn = p_baseAmount position + pnl;
          cap = currentCapital st + amountToReturn
      in st\<lparr>currentCapital := cap,
            totalProfitLoss := totalProfitLoss st + pnl,
            tradeHistory := tradeHistory st @
              [\<lparr>t_entry = p_entryDate position, t_exit = lastDate,
                t_entryPrice = p_entryPrice position, t_exitPrice = lastPrice,
                t_highestPrice = p_highestPrice position,
                t_baseAmount = p_baseAmount position,
                t_leveragedAmount = p_leveragedAmount position,
                t_pnl = pnl, t_fees = p_accumulatedFees position,
                t_daysHeld = dh (p_entryDate position) lastDate,
                t_remainingCapital = cap,
                t_capitalAtEntry = p_remainingCapitalAtEntry position\<rparr>],
            openPositions := openPositions st @
              [\<lparr>o_entryDate = p_entryDate position, o_entryPrice = p_entryPrice position,
                o_currentPrice = lastPrice, o_highestPrice = p_highestPrice position,
                o_baseAmount = p_baseAmount position,
                o_leveragedAmount = p_leveragedAmount position,
                o_unrealizedPnl = pnl,
                o_accumulatedFees = p_accumulatedFees position,
                o_capitalAtEntry = p_remainingCapitalAtEntry position\<rparr>]\<rparr>)"

text \<open>\<^verbatim>\<open>activePositions.forEach\<close> at the end of the run: first to last, nothing removed.\<close>

fun liquidate :: "(string \<Rightarrow> string \<Rightarrow> real) \<Rightarrow> real \<Rightarrow> string \<Rightarrow> Position list
    \<Rightarrow> sim_state \<Rightarrow> sim_state" where
  "liquidate dh lastPrice lastDate [] st = st"
| "liquidate dh lastPrice lastDate (position # rest) st =
     liquidate dh lastPrice lastDate rest (closeAtEnd dh lastPrice lastDate position st)"

definition initialState :: "SimulationParams \<Rightarrow> sim_state" where
  "initialState params =
     \<lparr>currentCapital = investmentCapital params, totalProfitLoss = 0, tradesExecuted = 0,
      totalFees = 0, consecutiveLosses = 0, maxConsecutiveLosses = 0, skippedTrades = 0,
      equityCurve = [], tradeHistory = [], openPositions = [], activePositions = [],
      currentDate = None\<rparr>"

definition successRateOf :: "TradeData list \<Rightarrow> real" where
  "successRateOf trades =
     (if length trades > 0
      then real (length (filter (\<lambda>t. t_pnl t > 0) trades)) / real (length trades)
      else 0)"

definition finish :: "sim_state \<Rightarrow> SimulationResults" where
  "finish st =
     \<lparr>r_finalCapital = currentCapital st,
      r_totalProfitLoss = totalProfitLoss st,
      r_totalTrades = tradesExecuted st,
      r_totalFees = totalFees st,
      r_equityCurve = equityCurve st,
      r_tradeHistory = tradeHistory st,
      r_successRate = successRateOf (tradeHistory st),
      r_maxDrawdown = calculateDrawdown (equityCurve st),
      r_maxConsecutiveLosses = maxConsecutiveLosses st,
      r_avgProfitPerTrade =
        totalProfitLoss st / real (if tradesExecuted st = 0 then 1 else tradesExecuted st),
      r_openPositions = openPositions st,
      r_skippedTrades = skippedTrades st\<rparr>"

text \<open>The state when the day loop has ended, before the end-of-series liquidation.\<close>

definition afterLoop :: "(string \<Rightarrow> string \<Rightarrow> real) \<Rightarrow> SimulationParams
    \<Rightarrow> GoldPriceDataType list \<Rightarrow> sim_state" where
  "afterLoop dh params goldPriceHistory =
     (case goldPriceHistory of
        [] \<Rightarrow> initialState params
      | first # rest \<Rightarrow> dayLoop dh params first rest (initialState params))"

definition runSimulation :: "(string \<Rightarrow> string \<Rightarrow> real) \<Rightarrow> SimulationParams
    \<Rightarrow> GoldPriceDataType list \<Rightarrow> sim_error + SimulationResults" where
  "runSimulation dh params goldPriceHistory =
     (if \<not> validateParams params then Inl InvalidParameters
      else
        (let st = afterLoop dh params goldPriceHistory
         in if goldPriceHistory = [] then Inl TypeError
            else
              (let lastPrice = currentPrice (last goldPriceHistory);
                   lastDate = date (last goldPriceHistory)
               in Inr (finish (liquidate dh lastPrice lastDate (activePositions st) st)))))"

section \<open>The metrics of \<^verbatim>\<open>utils.ts\<close>\<close>

text \<open>
  \<^verbatim>\<open>calculatePerformanceMetrics\<close> divides without guards, so its results can leave the
  finite numbers. There a JavaScript number is a finite real, an infinity or NaN.
  Zero carries no sign in this model: a division of a non-zero number by zero takes the
  sign of the numerator. \<^verbatim>\<open>Math.pow(x, 2)\<close> is the product of \<open>x\<close> with itself. The
  inputs (profits, equities) are finite.
\<close>

datatype jsnum = Fin real | PosInf | NegInf | NaN

fun jneg :: "jsnum \<Rightarrow> jsnum" where
  "jneg (Fin a) = Fin (- a)"
| "jneg PosInf = NegInf"
| "jneg NegInf = PosInf"
| "jneg NaN = NaN"

fun jpositive :: "jsnum \<Rightarrow> bool" where
  "jpositive (Fin a) = (a > 0)"
| "jpositive PosInf = True"
| "jpositive NegInf = False"
| "jpositive NaN = False"

fun jadd :: "jsnum \<Rightarrow> jsnum \<Rightarrow> jsnum" where
  "jadd NaN b = NaN"
| "jadd a NaN = NaN"
| "jadd (Fin a) (Fin b) = Fin (a + b)"
| "jadd PosInf NegInf = NaN"
| "jadd NegInf PosInf = NaN"
| "jadd PosInf b = PosInf"
| "jadd NegInf b = NegInf"
| "jadd a PosInf = PosInf"
| "jadd a NegInf = NegInf"

definition jsub :: "jsnum \<Rightarrow> jsnum \<Rightarrow> jsnum" where
  "jsub a b = jadd a (jneg b)"

fun jmul :: "jsnum \<Rightarrow> jsnum \<Rightarrow> jsnum" where
  "jmul NaN b = NaN"
| "jmul a NaN = NaN"
| "jmul (Fin a) (Fin b) = Fin (a * b)"
| "jmul a b =
     (if a = Fin 0 \<or> b = Fin 0 then NaN
      else if jpositive a = jpositive b then PosInf else NegInf)"

fun jdiv :: "jsnum \<Rightarrow> jsnum \<Rightarrow> jsnum" where
  "jdiv NaN b = NaN"
| "jdiv a NaN = NaN"
| "jdiv (Fin a) (Fin b) =
     (if b \<noteq> 0 then Fin (a / b)
      else if a = 0 then NaN
      else if a > 0 then PosInf else NegInf)"
| "jdiv (Fin a) b = Fin 0"
| "jdiv a (Fin b) = (if jpositive a = (b \<ge> 0) then PosInf else NegInf)"
| "jdiv a b = NaN"

fun jabs :: "jsnum \<Rightarrow> jsnum" where
  "jabs (Fin a) = Fin \<bar>a\<bar>"
| "jabs NaN = NaN"
| "jabs a = PosInf"

fun jsqrt :: "jsnum \<Rightarrow> jsnum" where
  "jsqrt (Fin a) = (if a < 0 then NaN else Fin (sqrt a))"
| "jsqrt PosInf = PosInf"
| "jsqrt a = NaN"

fun jgt :: "jsnum \<Rightarrow> jsnum \<Rightarrow> bool" where
  "jgt NaN b = False"
| "jgt a NaN = False"
| "jgt (Fin a) (Fin b) = (a > b)"
| "jgt PosInf b = (b \<noteq> PosInf)"
| "jgt a NegInf = (a \<noteq> NegInf)"
| "jgt a b = False"

record TradeRecord =
  tr_entry :: string
  tr_exit :: string
  tr_pnl :: real
  tr_type :: string
  tr_priceChange :: string
  tr_marketExposure :: real
  tr_entryPrice :: real
  tr_exitPrice :: real
  tr_holdingPeriod :: real

record PerformanceMetrics =
  m_maxDrawdown :: jsnum
  m_sharpeRatio :: jsnum
  m_winRate :: jsnum
  m_averageWin :: jsnum
  m_averageLoss :: jsnum
  m_profitFactor :: jsnum
  m_maxConsecutiveLosses :: nat
  m_dailyReturnVolatility :: jsnum

text \<open>The \<^verbatim>\<open>forEach\<close> of \<^verbatim>\<open>calculateMaxConsecutiveLosses\<close>.\<close>

fun lossRunLoop :: "nat \<Rightarrow> nat \<Rightarrow> TradeRecord list \<Rightarrow> nat" where
  "lossRunLoop maxConsecutive current [] = maxConsecutive"
| "lossRunLoop maxConsecutive current (trade # rest) =
     (if tr_pnl trade < 0
      then lossRunLoop (max maxConsecutive (current + 1)) (current + 1) rest
      else lossRunLoop maxConsecutive 0 rest)"

definition calculateMaxConsecutiveLosses :: "TradeRecord list \<Rightarrow> nat" where
  "calculateMaxConsecutiveLosses tradeHistory' = lossRunLoop 0 0 tradeHistory'"

text \<open>The drawdown \<^verbatim>\<open>forEach\<close> of \<^verbatim>\<open>calculatePerformanceMetrics\<close>: peak, then maximum.\<close>

fun metricsDrawdownLoop :: "jsnum \<Rightarrow> jsnum \<Rightarrow> (string \<times> real) list \<Rightarrow> jsnum" where
  "metricsDrawdownLoop peak maxDrawdown [] = maxDrawdown"
| "metricsDrawdownLoop peak maxDrawdown (point # rest) =
     (let peak' = (if jgt (Fin (snd point)) peak then Fin (snd point) else peak);
          drawdown = jdiv (jsub peak' (Fin (snd point))) peak'
      in metricsDrawdownLoop peak'
           (if jgt drawdown maxDrawdown then drawdown else maxDrawdown) rest)"

fun returnsAfter :: "real \<Rightarrow> (string \<times> real) list \<Rightarrow> jsnum list" where
  "returnsAfter before [] = []"
| "returnsAfter before (point # rest) =
     jdiv (jsub (Fin (snd point)) (Fin before)) (Fin before) # returnsAfter (snd point) rest"

definition dailyReturns :: "(string \<times> real) list \<Rightarrow> jsnum list" where
  "dailyReturns curve =
     (case curve of [] \<Rightarrow> [] | first # rest \<Rightarrow> Fin 0 # returnsAfter (snd first) rest)"

definition calculatePerformanceMetrics :: "TradeRecord list \<Rightarrow> (string \<times> real) list
    \<Rightarrow> PerformanceMetrics" where
  "calculatePerformanceMetrics tradeHistory' curve =
     (let wins = filter (\<lambda>t. tr_pnl t > 0) tradeHistory';
          losses = filter (\<lambda>t. tr_pnl t < 0) tradeHistory';
          winRate = jdiv (Fin (real (length wins))) (Fin (real (length tradeHistory')));
          averageWin =
            (if length wins > 0
             then jdiv (foldl (\<lambda>sum t. jadd sum (Fin (tr_pnl t))) (Fin 0) wins)
                    (Fin (real (length wins)))
             else Fin 0);
          averageLoss =
            (if length losses > 0
             then jabs (jdiv (foldl (\<lambda>sum t. jadd sum (Fin (tr_pnl t))) (Fin 0) losses)
                    (Fin (real (length losses))))
             else Fin 0);
          maxDrawdown = metricsDrawdownLoop NegInf (Fin 0) curve;
          returns = dailyReturns curve;
          meanReturn = jdiv (foldl jadd (Fin 0) returns) (Fin (real (length returns)));
          stdReturn = jsqrt (jdiv
            (foldl (\<lambda>a b. jadd a (jmul (jsub b meanReturn) (jsub b meanReturn))) (Fin 0) returns)
            (Fin (real (length returns))));
          sharpeRatio = jmul (jdiv meanReturn stdReturn) (jsqrt (Fin 252))
      in \<lparr>m_maxDrawdown = maxDrawdown,
          m_sharpeRatio = sharpeRatio,
          m_winRate = winRate,
          m_averageWin = averageWin,
          m_averageLoss = averageLoss,
          m_profitFactor =
            jdiv (jmul averageWin winRate) (jmul averageLoss (jsub (Fin 1) winRate)),
          m_maxConsecutiveLosses = calculateMaxConsecutiveLosses tradeHistory',
          m_dailyReturnVolatility = jmul (jmul stdReturn (jsqrt (Fin 252))) (Fin 100)\<rparr>)"

section \<open>The stop close in binary64\<close>

text \<open>
  The program computes in IEEE 754 double precision. For the one place where a claim
  depends on the last bit, the arithmetic of a stop close is also given as the program
  runs it: every operation is the exact one followed by rounding to the nearest number
  with a significand of 53 bits, ties to the even significand. \<open>normalise\<close> scales a
  positive number into the interval from \<open>2 ^ 52\<close> up to \<open>2 ^ 53\<close> and returns the
  binary exponent; its first argument bounds the number of steps and covers the whole
  range of double precision. Overflow and subnormal numbers are not modelled.
\<close>

definition roundHalfEven :: "real \<Rightarrow> int" where
  "roundHalfEven x =
     (let f = \<lfloor>x\<rfloor>; d = x - of_int f
      in if d < 1 / 2 then f
         else if d > 1 / 2 then f + 1
         else if even f then f else f + 1)"

fun normalise :: "nat \<Rightarrow> real \<Rightarrow> int \<Rightarrow> real \<times> int" where
  "normalise 0 x e = (x, e)"
| "normalise (Suc n) x e =
     (if x < 2 ^ 52 then normalise n (x * 2) (e - 1)
      else if x \<ge> 2 ^ 53 then normalise n (x / 2) (e + 1)
      else (x, e))"

definition binary64 :: "real \<Rightarrow> real" where
  "binary64 x =
     (if x = 0 then 0
      else
        (case normalise 2200 \<bar>x\<bar> 0 of
           (m, e) \<Rightarrow>
             (let r = (if e \<ge> 0 then of_int (roundHalfEven m) * 2 ^ nat e
                       else of_int (roundHalfEven m) / 2 ^ nat (- e))
              in if x < 0 then - r else r)))"

text \<open>\<^verbatim>\<open>calculateStopLossPrice\<close> and the profit lines of the stop close, each operation
  rounded.\<close>

definition calculateStopLossPrice64 :: "real \<Rightarrow> real \<Rightarrow> real \<Rightarrow> real" where
  "calculateStopLossPrice64 highest leveragedAmount stopLossAmount =
     (let percentageDrop = binary64 (stopLossAmount / leveragedAmount)
      in binary64 (highest * binary64 (1 - percentageDrop)))"

definition stopClosePnl64 :: "SimulationParams \<Rightarrow> Position \<Rightarrow> real" where
  "stopClosePnl64 params position =
     (let exitPrice = calculateStopLossPrice64 (p_highestPrice position)
                        (p_leveragedAmount position) (stopLossDollar params);
          percentageChange =
            binary64 (binary64 (exitPrice - p_entryPrice position) / p_entryPrice position);
          pnl = binary64 (p_leveragedAmount position * percentageChange)
      in pnl)"

section \<open>Notions of the specification and example inputs\<close>

text \<open>Capital committed to open positions, realized profit of a ledger, and the cash
  that remains when profit is taken out and fees are put back.\<close>

definition committed :: "Position list \<Rightarrow> real" where
  "committed ps = sum_list (map p_baseAmount ps)"

definition ledgerPnl :: "TradeData list \<Rightarrow> real" where
  "ledgerPnl ts = sum_list (map t_pnl ts)"

definition balance :: "sim_state \<Rightarrow> real" where
  "balance st = currentCapital st - ledgerPnl (tradeHistory st) + totalFees st"

text \<open>The three quantities that every day of the loop conserves.\<close>

definition conserved :: "sim_state \<Rightarrow> real \<times> real \<times> int" where
  "conserved st =
     (balance st + committed (activePositions st),
      totalProfitLoss st - ledgerPnl (tradeHistory st),
      int (length (tradeHistory st)) + int (length (activePositions st))
        - int (tradesExecuted st))"

text \<open>
  What identifies a position from its entry to its line in the ledger: entry date, entry
  price, base amount, leveraged amount and the cash at entry.
\<close>

definition positionKey :: "Position \<Rightarrow> string \<times> real \<times> real \<times> real \<times> real" where
  "positionKey pos =
     (p_entryDate pos, p_entryPrice pos, p_baseAmount pos, p_leveragedAmount pos,
      p_remainingCapitalAtEntry pos)"

definition tradeKey :: "TradeData \<Rightarrow> string \<times> real \<times> real \<times> real \<times> real" where
  "tradeKey t =
     (t_entry t, t_entryPrice t, t_baseAmount t, t_leveragedAmount t, t_capitalAtEntry t)"

definition keysOf :: "sim_state \<Rightarrow> (string \<times> real \<times> real \<times> real \<times> real) multiset" where
  "keysOf st =
     mset (map tradeKey (tradeHistory st)) + mset (map positionKey (activePositions st))"

text \<open>The positions that the entry steps of a run open, in the order of their entry:
  on each processed day, what the entry step appends to the open positions.\<close>

definition openedOn :: "SimulationParams \<Rightarrow> GoldPriceDataType \<Rightarrow> GoldPriceDataType
    \<Rightarrow> sim_state \<Rightarrow> Position list" where
  "openedOn params previousData cur st =
     drop (length (activePositions st)) (activePositions (entryStep params previousData cur st))"

fun openedIn :: "(string \<Rightarrow> string \<Rightarrow> real) \<Rightarrow> SimulationParams \<Rightarrow> GoldPriceDataType
    \<Rightarrow> GoldPriceDataType list \<Rightarrow> sim_state \<Rightarrow> Position list" where
  "openedIn dh params previousData [] st = []"
| "openedIn dh params previousData (cur # rest) st =
     (if currentCapital st \<le> 0 \<and> activePositions st = [] then []
      else openedOn params previousData cur (exitStep dh params cur (feeStep params cur st))
           @ openedIn dh params cur rest (processDay dh params previousData cur st))"

definition openedPositions :: "(string \<Rightarrow> string \<Rightarrow> real) \<Rightarrow> SimulationParams
    \<Rightarrow> GoldPriceDataType list \<Rightarrow> Position list" where
  "openedPositions dh params goldPriceHistory =
     (case goldPriceHistory of
        [] \<Rightarrow> []
      | first # rest \<Rightarrow> openedIn dh params first rest (initialState params))"


definition stopExitPrice :: "SimulationParams \<Rightarrow> Position \<Rightarrow> real" where
  "stopExitPrice params pos =
     p_highestPrice pos * (1 - stopLossDollar params / p_leveragedAmount pos)"

definition stopPnl :: "SimulationParams \<Rightarrow> Position \<Rightarrow> real" where
  "stopPnl params pos =
     p_leveragedAmount pos * (stopExitPrice params pos - p_entryPrice pos) / p_entryPrice pos"

text \<open>Open positions entered at a positive price not above their highest price, and a
  ledger whose trades keep the bound.\<close>

definition sound :: "SimulationParams \<Rightarrow> sim_state \<Rightarrow> bool" where
  "sound params st \<longleftrightarrow>
     (\<forall>pos \<in> set (activePositions st). 0 < p_entryPrice pos \<and> p_entryPrice pos \<le> p_highestPrice pos)
     \<and> (\<forall>t \<in> set (tradeHistory st).
           stopLossDollar params \<le> t_leveragedAmount t \<longrightarrow> - stopLossDollar params \<le> t_pnl t)"

text \<open>The longest run of consecutive losses in a list of profits, as the specification
  words it: the greatest length of a contiguous stretch made of losses only.\<close>

definition longestLossRun :: "real list \<Rightarrow> nat" where
  "longestLossRun pnls = Max (set (map length (filter (list_all (\<lambda>x. x < 0)) (sublists pnls))))"

text \<open>The number of losses at the end of a list of profits.\<close>

definition trailingLosses :: "real list \<Rightarrow> nat" where
  "trailingLosses pnls = length (takeWhile (\<lambda>x. x < 0) (rev pnls))"

text \<open>The loss counters of a state agree with its ledger.\<close>

definition streaksAgree :: "sim_state \<Rightarrow> bool" where
  "streaksAgree st \<longleftrightarrow>
     maxConsecutiveLosses st = longestLossRun (map t_pnl (tradeHistory st))
     \<and> consecutiveLosses st = trailingLosses (map t_pnl (tradeHistory st))"

text \<open>Example inputs. \<open>defaultParams\<close> are the initial values of the form; the closed
  examples take every holding period as zero days.\<close>

definition noDaysHeld :: "string \<Rightarrow> string \<Rightarrow> real" where
  "noDaysHeld startDate endDate = 0"

definition pricePoint :: "string \<Rightarrow> real \<Rightarrow> real \<Rightarrow> real \<Rightarrow> real \<Rightarrow> GoldPriceDataType" where
  "pricePoint d opening high low closing =
     \<lparr>currentPrice = closing, openingPrice = opening, highestPrice = high,
      lowestPrice = low, date = d\<rparr>"

definition defaultParams :: SimulationParams where
  "defaultParams =
     \<lparr>investmentCapital = 10000, positionSizePercent = 1, leverage = 100,
      stopLossDollar = 200, minPriceMovement = 0.3, dailyFeePercent = 0.1,
      useTrailingStop = True\<rparr>"

definition fixedStopParams :: SimulationParams where
  "fixedStopParams = defaultParams\<lparr>useTrailingStop := False\<rparr>"

text \<open>Three days: an entry on the second, a drop of three percent on the third.\<close>

definition crashSeries :: "GoldPriceDataType list" where
  "crashSeries =
     [pricePoint ''2024-01-01'' 100 100 100 100,
      pricePoint ''2024-01-02'' 100.5 101 100.5 101,
      pricePoint ''2024-01-03'' 100.5 101 97.97 98]"

text \<open>Three days, each opening more than 0.3 percent above the day before.\<close>

definition risingSeries :: "GoldPriceDataType list" where
  "risingSeries =
     [pricePoint ''2024-01-01'' 100 100 100 100,
      pricePoint ''2024-01-02'' 100.5 100.5 100.5 100.5,
      pricePoint ''2024-01-03'' 101.1 101.1 101.1 101.1]"

text \<open>Three days: an entry on the second, a small loss at the end of the series.\<close>

definition slideSeries :: "GoldPriceDataType list" where
  "slideSeries =
     [pricePoint ''2024-01-01'' 100 100 100 100,
      pricePoint ''2024-01-02'' 101 101 101 101,
      pricePoint ''2024-01-03'' 100 100 100 100]"

text \<open>All capital in one position whose stop costs all of it; the series goes on
  for a day after the stop.\<close>

definition allInParams :: SimulationParams where
  "allInParams =
     \<lparr>investmentCapital = 10000, positionSizePercent = 100, leverage = 200,
      stopLossDollar = 10000, minPriceMovement = 0, dailyFeePercent = 0.1,
      useTrailingStop = True\<rparr>"

definition wipeoutSeries :: "GoldPriceDataType list" where
  "wipeoutSeries =
     [pricePoint ''2024-01-01'' 100 100 100 100,
      pricePoint ''2024-01-02'' 100 100 100 100,
      pricePoint ''2024-01-03'' 100 100 99 99,
      pricePoint ''2024-01-04'' 99 99 99 99]"

text \<open>Half of the cash per position and a stop-loss amount of twice the capital: the
  first position is stopped on the fourth day while the second stays open.\<close>

definition splitParams :: SimulationParams where
  "splitParams =
     \<lparr>investmentCapital = 10000, positionSizePercent = 50, leverage = 200,
      stopLossDollar = 20000, minPriceMovement = 0, dailyFeePercent = 0.1,
      useTrailingStop = True\<rparr>"

definition gapSeries :: "GoldPriceDataType list" where
  "gapSeries =
     [pricePoint ''2024-01-01'' 100 100 100 100,
      pricePoint ''2024-01-02'' 100 100 100 100,
      pricePoint ''2024-01-03'' 100 100 100 100,
      pricePoint ''2024-01-04'' 100 100 97 97,
      pricePoint ''2024-01-05'' 97 97 97 97]"

text \<open>Three days: an entry on the second and a stop on the third, and the third day
  opens high enough for another entry, which is still open at the end.\<close>

definition mixedSeries :: "GoldPriceDataType list" where
  "mixedSeries =
     [pricePoint ''2024-01-01'' 100 100 100 100,
      pricePoint ''2024-01-02'' 100.5 101 100.5 101,
      pricePoint ''2024-01-03'' 101 101 97.97 98]"

text \<open>Three days: an entry on the second day, which never trades above its open, and a
  stop on the third. \<open>boundaryPosition\<close> is the position this opens.\<close>

definition flatEntrySeries :: "GoldPriceDataType list" where
  "flatEntrySeries =
     [pricePoint ''2024-01-01'' 100 100 100 100,
      pricePoint ''2024-01-02'' 100.5 100.5 100.5 100.5,
      pricePoint ''2024-01-03'' 100.5 100.5 97.97 98]"

definition boundaryPosition :: Position where
  "boundaryPosition =
     \<lparr>p_entryPrice = 100.5, p_entryDate = ''2024-01-02'', p_highestPrice = 100.5,
      p_baseAmount = 100, p_leveragedAmount = 10000, p_accumulatedFees = 0,
      p_lastFeeDate = ''2024-01-02'', p_remainingCapitalAtEntry = 10000\<rparr>"

text \<open>A state with less cash than the trading floor.\<close>

definition brokeState :: sim_state where
  "brokeState = (initialState defaultParams)\<lparr>currentCapital := 50\<rparr>"

text \<open>The state after the first two days of \<open>crashSeries\<close> with the trailing stop
  switched off: one position is open.\<close>

definition heldState :: sim_state where
  "heldState = afterLoop noDaysHeld fixedStopParams (take 2 crashSeries)"

section \<open>Conservation of capital\<close>

lemma committed_simps [simp]:
  "committed [] = 0"
  "committed (pos # ps) = p_baseAmount pos + committed ps"
  "committed (ps @ qs) = committed ps + committed qs"
  "committed (rev ps) = committed ps"
  by (simp_all add: committed_def rev_map [symmetric] del: rev_map)

lemma ledgerPnl_simps [simp]:
  "ledgerPnl [] = 0"
  "ledgerPnl (ts @ us) = ledgerPnl ts + ledgerPnl us"
  "ledgerPnl [t] = t_pnl t"
  by (simp_all add: ledgerPnl_def)

lemma feeLoop_conserves:
  "feeLoop params d ps cap fees = (ps', cap', fees') \<Longrightarrow>
     cap' + fees' = cap + fees \<and> map p_baseAmount ps' = map p_baseAmount ps"
proof (induction ps arbitrary: cap fees ps' cap' fees')
  case Nil
  then show ?case by simp
next
  case (Cons pos ps)
  then show ?case
    by (auto simp: Let_def split: if_splits prod.splits)
qed

lemma feeStep_balance:
  "balance (feeStep params cur st) = balance st"
  "committed (activePositions (feeStep params cur st)) = committed (activePositions st)"
  "tradeHistory (feeStep params cur st) = tradeHistory st"
  "totalProfitLoss (feeStep params cur st) = totalProfitLoss st"
  "tradesExecuted (feeStep params cur st) = tradesExecuted st"
  "length (activePositions (feeStep params cur st)) = length (activePositions st)"
  by (auto simp: feeStep_def balance_def committed_def split: prod.splits
      dest!: feeLoop_conserves dest: arg_cong [where f = length])

lemma closeOnStop_balance:
  "balance (closeOnStop dh params cur pos st) = balance st + p_baseAmount pos"
  "totalProfitLoss (closeOnStop dh params cur pos st) - ledgerPnl (tradeHistory (closeOnStop dh params cur pos st))
     = totalProfitLoss st - ledgerPnl (tradeHistory st)"
  "tradesExecuted (closeOnStop dh params cur pos st) = tradesExecuted st"
  "length (tradeHistory (closeOnStop dh params cur pos st)) = Suc (length (tradeHistory st))"
  by (simp_all add: closeOnStop_def balance_def Let_def)

lemma updateHighest_base [simp]:
  "p_baseAmount (updateHighest cur pos) = p_baseAmount pos"
  by (simp add: updateHighest_def)

lemma exitLoop_balance:
  "exitLoop dh params cur ps kept st = (kept', st') \<Longrightarrow>
     balance st' + committed kept' = balance st + committed kept + committed ps
     \<and> totalProfitLoss st' - ledgerPnl (tradeHistory st') = totalProfitLoss st - ledgerPnl (tradeHistory st)
     \<and> tradesExecuted st' = tradesExecuted st
     \<and> length (tradeHistory st') + length kept' = length (tradeHistory st) + length kept + length ps"
proof (induction ps arbitrary: kept st)
  case Nil
  then show ?case by simp
next
  case (Cons pos ps)
  show ?case
  proof (cases "isStopLossTriggered (lowestPrice cur) (p_highestPrice (updateHighest cur pos))
             (p_leveragedAmount (updateHighest cur pos)) (stopLossDollar params) (useTrailingStop params)")
    case True
    with Cons.prems have "exitLoop dh params cur ps kept (closeOnStop dh params cur (updateHighest cur pos) st) = (kept', st')"
      by (simp add: Let_def)
    from Cons.IH [OF this] show ?thesis
      by (simp add: closeOnStop_balance)
  next
    case False
    with Cons.prems have "exitLoop dh params cur ps (updateHighest cur pos # kept) st = (kept', st')"
      by (simp add: Let_def)
    from Cons.IH [OF this] show ?thesis
      by simp
  qed
qed

lemma exitStep_balance:
  "balance (exitStep dh params cur st) + committed (activePositions (exitStep dh params cur st))
     = balance st + committed (activePositions st)"
  "totalProfitLoss (exitStep dh params cur st) - ledgerPnl (tradeHistory (exitStep dh params cur st))
     = totalProfitLoss st - ledgerPnl (tradeHistory st)"
  "tradesExecuted (exitStep dh params cur st) = tradesExecuted st"
  "length (tradeHistory (exitStep dh params cur st)) + length (activePositions (exitStep dh params cur st))
     = length (tradeHistory st) + length (activePositions st)"
  by (auto simp: exitStep_def balance_def split: prod.splits dest!: exitLoop_balance)

lemma entryStep_balance:
  "balance (entryStep params prev cur st) + committed (activePositions (entryStep params prev cur st))
     = balance st + committed (activePositions st)"
  "tradeHistory (entryStep params prev cur st) = tradeHistory st"
  "totalProfitLoss (entryStep params prev cur st) = totalProfitLoss st"
  "length (activePositions (entryStep params prev cur st)) + tradesExecuted st
     = length (activePositions st) + tradesExecuted (entryStep params prev cur st)"
  by (simp_all add: entryStep_def balance_def Let_def)

lemma equityStep_fields [simp]:
  "currentCapital (equityStep cur st) = currentCapital st"
  "totalFees (equityStep cur st) = totalFees st"
  "tradeHistory (equityStep cur st) = tradeHistory st"
  "activePositions (equityStep cur st) = activePositions st"
  "totalProfitLoss (equityStep cur st) = totalProfitLoss st"
  "tradesExecuted (equityStep cur st) = tradesExecuted st"
  by (simp_all add: equityStep_def)

lemma equityStep_balance [simp]: "balance (equityStep cur st) = balance st"
  by (simp add: balance_def)

lemma processDay_conserved: "conserved (processDay dh params prev cur st) = conserved st"
proof -
  let ?a = "feeStep params cur st"
  let ?b = "exitStep dh params cur ?a"
  let ?c = "entryStep params prev cur ?b"
  have a: "conserved ?a = conserved st"
    by (simp add: conserved_def feeStep_balance)
  have b: "conserved ?b = conserved ?a"
    using exitStep_balance [of dh params cur ?a] by (simp add: conserved_def)
  have c: "conserved ?c = conserved ?b"
    using entryStep_balance [of params prev cur ?b] by (simp add: conserved_def)
  have "conserved (equityStep cur ?c) = conserved ?c"
    by (simp add: conserved_def)
  with a b c show ?thesis
    by (simp add: processDay_def)
qed

lemma dayLoop_conserved: "conserved (dayLoop dh params prev days st) = conserved st"
  by (induction days arbitrary: prev st) (simp_all add: processDay_conserved)

lemma closeAtEnd_balance:
  "balance (closeAtEnd dh lastPrice lastDate pos st) = balance st + p_baseAmount pos"
  "totalProfitLoss (closeAtEnd dh lastPrice lastDate pos st)
     - ledgerPnl (tradeHistory (closeAtEnd dh lastPrice lastDate pos st))
     = totalProfitLoss st - ledgerPnl (tradeHistory st)"
  "tradesExecuted (closeAtEnd dh lastPrice lastDate pos st) = tradesExecuted st"
  "length (tradeHistory (closeAtEnd dh lastPrice lastDate pos st)) = Suc (length (tradeHistory st))"
  "totalFees (closeAtEnd dh lastPrice lastDate pos st) = totalFees st"
  by (simp_all add: closeAtEnd_def balance_def Let_def)

lemma liquidate_balance:
  "balance (liquidate dh lastPrice lastDate ps st) = balance st + committed ps"
  "totalProfitLoss (liquidate dh lastPrice lastDate ps st)
     - ledgerPnl (tradeHistory (liquidate dh lastPrice lastDate ps st))
     = totalProfitLoss st - ledgerPnl (tradeHistory st)"
  "tradesExecuted (liquidate dh lastPrice lastDate ps st) = tradesExecuted st"
  "length (tradeHistory (liquidate dh lastPrice lastDate ps st)) = length (tradeHistory st) + length ps"
  by (induction ps arbitrary: st) (simp_all add: closeAtEnd_balance)

lemma conserved_initial: "conserved (initialState params) = (investmentCapital params, 0, 0)"
  by (simp add: conserved_def initialState_def balance_def)

lemma afterLoop_conserved:
  "conserved (afterLoop dh params goldPriceHistory) = (investmentCapital params, 0, 0)"
  by (simp add: afterLoop_def dayLoop_conserved conserved_initial split: list.splits)


text \<open>
  Claim C1. For valid parameters and a non-empty price series the simulation returns a
  result, and its final capital is the starting capital plus the profit of all trades
  of the final ledger minus the total fees. Every fee is therefore taken from capital
  once: a close returns the base amount and the profit, with no fee taken again. The
  identity is exact over the reals. The reported total profit is the ledger's sum.
\<close>

theorem final_capital_identity:
  assumes "validateParams params" and "goldPriceHistory \<noteq> []"
  shows "\<exists>r. runSimulation dh params goldPriceHistory = Inr r
           \<and> r_finalCapital r
               = investmentCapital params + (\<Sum>t\<leftarrow>r_tradeHistory r. t_pnl t) - r_totalFees r
           \<and> r_totalProfitLoss r = (\<Sum>t\<leftarrow>r_tradeHistory r. t_pnl t)"
proof -
  let ?st = "afterLoop dh params goldPriceHistory"
  let ?fin = "liquidate dh (currentPrice (last goldPriceHistory)) (date (last goldPriceHistory))
                (activePositions ?st) ?st"
  have run: "runSimulation dh params goldPriceHistory = Inr (finish ?fin)"
    using assms by (simp add: runSimulation_def Let_def)
  have "balance ?fin = investmentCapital params"
    using afterLoop_conserved [of dh params goldPriceHistory]
    by (simp add: liquidate_balance conserved_def)
  moreover have "totalProfitLoss ?fin = ledgerPnl (tradeHistory ?fin)"
    using afterLoop_conserved [of dh params goldPriceHistory]
      liquidate_balance(2) [of dh _ _ "activePositions ?st" ?st]
    by (simp add: conserved_def)
  ultimately show ?thesis
    unfolding run by (simp add: finish_def balance_def ledgerPnl_def)
qed

theorem final_capital_identity_witness:
  "validateParams defaultParams \<and> crashSeries \<noteq> []
   \<and> (\<exists>r. runSimulation noDaysHeld defaultParams crashSeries = Inr r
        \<and> r_finalCapital r
            = investmentCapital defaultParams + (\<Sum>t\<leftarrow>r_tradeHistory r. t_pnl t) - r_totalFees r
        \<and> r_totalProfitLoss r = (\<Sum>t\<leftarrow>r_tradeHistory r. t_pnl t))"
proof -
  have valid: "validateParams defaultParams"
    by code_simp
  have nonempty: "crashSeries \<noteq> []"
    by (simp add: crashSeries_def)
  from final_capital_identity [OF valid nonempty, of noDaysHeld] valid nonempty
  show ?thesis by blast
qed

section \<open>No position is lost\<close>

lemma feeLoop_keys:
  "feeLoop params d ps cap fees = (ps', cap', fees') \<Longrightarrow> map positionKey ps' = map positionKey ps"
proof (induction ps arbitrary: cap fees ps' cap' fees')
  case Nil
  then show ?case by simp
next
  case (Cons pos ps)
  then show ?case
    by (auto simp: Let_def positionKey_def split: if_splits prod.splits)
qed

lemma feeStep_keys: "keysOf (feeStep params cur st) = keysOf st"
  by (auto simp: feeStep_def keysOf_def simp del: mset_map split: prod.splits dest!: feeLoop_keys)

lemma updateHighest_key [simp]: "positionKey (updateHighest cur pos) = positionKey pos"
  by (simp add: updateHighest_def positionKey_def)

lemma closeOnStop_keys:
  "map tradeKey (tradeHistory (closeOnStop dh params cur pos st))
     = map tradeKey (tradeHistory st) @ [positionKey pos]"
  by (simp add: closeOnStop_def Let_def tradeKey_def positionKey_def)

lemma exitLoop_keys:
  "exitLoop dh params cur ps kept st = (kept', st') \<Longrightarrow>
     mset (map tradeKey (tradeHistory st')) + mset (map positionKey kept')
       = mset (map tradeKey (tradeHistory st)) + mset (map positionKey kept) + mset (map positionKey ps)"
proof (induction ps arbitrary: kept st)
  case Nil
  then show ?case by simp
next
  case (Cons pos ps)
  show ?case
  proof (cases "isStopLossTriggered (lowestPrice cur) (p_highestPrice (updateHighest cur pos))
             (p_leveragedAmount (updateHighest cur pos)) (stopLossDollar params) (useTrailingStop params)")
    case True
    with Cons.prems have "exitLoop dh params cur ps kept (closeOnStop dh params cur (updateHighest cur pos) st) = (kept', st')"
      by (simp add: Let_def)
    from Cons.IH [OF this] show ?thesis
      by (simp add: closeOnStop_keys)
  next
    case False
    with Cons.prems have "exitLoop dh params cur ps (updateHighest cur pos # kept) st = (kept', st')"
      by (simp add: Let_def)
    from Cons.IH [OF this] show ?thesis
      by simp
  qed
qed

lemma exitStep_keys: "keysOf (exitStep dh params cur st) = keysOf st"
  by (auto simp: exitStep_def keysOf_def split: prod.splits dest!: exitLoop_keys)

lemma entryStep_appends:
  "activePositions (entryStep params prev cur st) = activePositions st @ openedOn params prev cur st"
  "tradeHistory (entryStep params prev cur st) = tradeHistory st"
  by (simp_all add: openedOn_def entryStep_def Let_def)

lemma entryStep_keys:
  "keysOf (entryStep params prev cur st) = keysOf st + mset (map positionKey (openedOn params prev cur st))"
  by (simp add: keysOf_def entryStep_appends)

lemma equityStep_keys: "keysOf (equityStep cur st) = keysOf st"
  by (simp add: keysOf_def equityStep_def)

lemma processDay_keys:
  "keysOf (processDay dh params prev cur st)
     = keysOf st + mset (map positionKey
         (openedOn params prev cur (exitStep dh params cur (feeStep params cur st))))"
  by (simp add: processDay_def equityStep_keys entryStep_keys exitStep_keys feeStep_keys)

lemma dayLoop_keys:
  "keysOf (dayLoop dh params prev days st)
     = keysOf st + mset (map positionKey (openedIn dh params prev days st))"
  by (induction days arbitrary: prev st) (simp_all add: processDay_keys)

lemma closeAtEnd_keys:
  "map tradeKey (tradeHistory (closeAtEnd dh lastPrice lastDate pos st))
     = map tradeKey (tradeHistory st) @ [positionKey pos]"
  by (simp add: closeAtEnd_def Let_def tradeKey_def positionKey_def)

text \<open>What a forced close writes into the ledger, apart from the running capital.\<close>

lemma closeAtEnd_ledger:
  "\<exists>t. tradeHistory (closeAtEnd dh lastPrice lastDate pos st) = tradeHistory st @ [t]
     \<and> t_exit t = lastDate \<and> t_exitPrice t = lastPrice
     \<and> t_pnl t = p_leveragedAmount pos * ((lastPrice - p_entryPrice pos) / p_entryPrice pos)
     \<and> tradeKey t = positionKey pos"
  by (simp add: closeAtEnd_def Let_def tradeKey_def positionKey_def)

lemma liquidate_ledger:
  "\<exists>ts. tradeHistory (liquidate dh lastPrice lastDate ps st) = tradeHistory st @ ts
     \<and> map (\<lambda>t. (tradeKey t, t_exit t, t_exitPrice t, t_pnl t)) ts
       = map (\<lambda>pos. (positionKey pos, lastDate, lastPrice,
            p_leveragedAmount pos * ((lastPrice - p_entryPrice pos) / p_entryPrice pos))) ps"
proof (induction ps arbitrary: st)
  case Nil
  then show ?case by simp
next
  case (Cons pos ps)
  obtain t where t: "tradeHistory (closeAtEnd dh lastPrice lastDate pos st) = tradeHistory st @ [t]"
    "t_exit t = lastDate" "t_exitPrice t = lastPrice"
    "t_pnl t = p_leveragedAmount pos * ((lastPrice - p_entryPrice pos) / p_entryPrice pos)"
    "tradeKey t = positionKey pos"
    using closeAtEnd_ledger by blast
  from Cons.IH [of "closeAtEnd dh lastPrice lastDate pos st"]
  obtain ts where ts: "tradeHistory (liquidate dh lastPrice lastDate ps (closeAtEnd dh lastPrice lastDate pos st))
      = tradeHistory (closeAtEnd dh lastPrice lastDate pos st) @ ts"
    "map (\<lambda>t. (tradeKey t, t_exit t, t_exitPrice t, t_pnl t)) ts
       = map (\<lambda>pos. (positionKey pos, lastDate, lastPrice,
            p_leveragedAmount pos * ((lastPrice - p_entryPrice pos) / p_entryPrice pos))) ps"
    by blast
  show ?case
    by (rule exI [where x = "t # ts"]) (simp add: t ts)
qed

lemma afterLoop_keys:
  "keysOf (afterLoop dh params goldPriceHistory)
     = mset (map positionKey (openedPositions dh params goldPriceHistory))"
proof -
  have init: "keysOf (initialState params) = {#}"
    by (simp add: keysOf_def initialState_def)
  show ?thesis
    by (cases goldPriceHistory) (simp_all add: afterLoop_def openedPositions_def dayLoop_keys init)
qed

text \<open>
  Claim C3. For valid parameters and a non-empty series the run returns, and its final
  ledger is the ledger of the day loop followed by one trade for every position still
  open, in order: each is closed at the last price of the series on its last date, with
  profit leveraged amount times (exit price - entry price) / entry price, the formula of
  a stop exit. As multisets of position keys, the final ledger holds exactly the
  positions that the entry steps opened, each as often as it was opened, and the ledger
  has as many trades as were executed.
\<close>

theorem every_position_in_ledger:
  assumes "validateParams params" and "goldPriceHistory \<noteq> []"
  shows "\<exists>r ts. runSimulation dh params goldPriceHistory = Inr r
           \<and> r_tradeHistory r = tradeHistory (afterLoop dh params goldPriceHistory) @ ts
           \<and> map (\<lambda>t. (tradeKey t, t_exit t, t_exitPrice t, t_pnl t)) ts
               = map (\<lambda>pos. (positionKey pos, date (last goldPriceHistory),
                      currentPrice (last goldPriceHistory),
                      p_leveragedAmount pos
                        * ((currentPrice (last goldPriceHistory) - p_entryPrice pos) / p_entryPrice pos)))
                   (activePositions (afterLoop dh params goldPriceHistory))
           \<and> mset (map tradeKey (r_tradeHistory r))
               = mset (map positionKey (openedPositions dh params goldPriceHistory))
           \<and> length (r_tradeHistory r) = r_totalTrades r"
proof -
  let ?st = "afterLoop dh params goldPriceHistory"
  let ?price = "currentPrice (last goldPriceHistory)"
  let ?date = "date (last goldPriceHistory)"
  let ?fin = "liquidate dh ?price ?date (activePositions ?st) ?st"
  have run: "runSimulation dh params goldPriceHistory = Inr (finish ?fin)"
    using assms by (simp add: runSimulation_def Let_def)
  obtain ts where ts: "tradeHistory ?fin = tradeHistory ?st @ ts"
    "map (\<lambda>t. (tradeKey t, t_exit t, t_exitPrice t, t_pnl t)) ts
       = map (\<lambda>pos. (positionKey pos, ?date, ?price,
            p_leveragedAmount pos * ((?price - p_entryPrice pos) / p_entryPrice pos)))
           (activePositions ?st)"
    using liquidate_ledger [of dh ?price ?date "activePositions ?st" ?st] by blast
  from ts(2) have "map fst (map (\<lambda>t. (tradeKey t, t_exit t, t_exitPrice t, t_pnl t)) ts)
      = map fst (map (\<lambda>pos. (positionKey pos, ?date, ?price,
            p_leveragedAmount pos * ((?price - p_entryPrice pos) / p_entryPrice pos)))
           (activePositions ?st))"
    by (rule arg_cong)
  then have keys: "map tradeKey ts = map positionKey (activePositions ?st)"
    by (simp add: comp_def)
  have "mset (map tradeKey (tradeHistory ?fin)) = keysOf ?st"
    unfolding ts(1) keysOf_def map_append mset_append keys ..
  then have all: "mset (map tradeKey (tradeHistory ?fin))
      = mset (map positionKey (openedPositions dh params goldPriceHistory))"
    by (simp only: afterLoop_keys)
  have count: "length (tradeHistory ?fin) = tradesExecuted ?fin"
    using afterLoop_conserved [of dh params goldPriceHistory]
    by (simp add: liquidate_balance conserved_def)
  show ?thesis
    unfolding run using ts all count by (simp add: finish_def)
qed

text \<open>On \<open>mixedSeries\<close> the first position is closed by its stop on the third day and the
  second, opened that day, is still open when the series ends: the final ledger is the
  stop close followed by one forced close.\<close>

theorem every_position_in_ledger_witness:
  "validateParams defaultParams \<and> mixedSeries \<noteq> []
   \<and> map t_entry (tradeHistory (afterLoop noDaysHeld defaultParams mixedSeries)) = [''2024-01-02'']
   \<and> map p_entryDate (activePositions (afterLoop noDaysHeld defaultParams mixedSeries))
       = [''2024-01-03'']
   \<and> (\<exists>r ts. runSimulation noDaysHeld defaultParams mixedSeries = Inr r
           \<and> r_tradeHistory r = tradeHistory (afterLoop noDaysHeld defaultParams mixedSeries) @ ts
           \<and> length ts = 1
           \<and> map (\<lambda>t. (tradeKey t, t_exit t, t_exitPrice t, t_pnl t)) ts
               = map (\<lambda>pos. (positionKey pos, date (last mixedSeries),
                      currentPrice (last mixedSeries),
                      p_leveragedAmount pos
                        * ((currentPrice (last mixedSeries) - p_entryPrice pos) / p_entryPrice pos)))
                   (activePositions (afterLoop noDaysHeld defaultParams mixedSeries))
           \<and> mset (map tradeKey (r_tradeHistory r))
               = mset (map positionKey (openedPositions noDaysHeld defaultParams mixedSeries))
           \<and> length (r_tradeHistory r) = r_totalTrades r
           \<and> r_totalTrades r = 2)"
proof -
  have valid: "validateParams defaultParams"
    by code_simp
  have nonempty: "mixedSeries \<noteq> []"
    by (simp add: mixedSeries_def)
  have loop: "map t_entry (tradeHistory (afterLoop noDaysHeld defaultParams mixedSeries))
       = [''2024-01-02'']"
    "map p_entryDate (activePositions (afterLoop noDaysHeld defaultParams mixedSeries))
       = [''2024-01-03'']"
    by code_simp+
  from every_position_in_ledger [OF valid nonempty, of noDaysHeld]
  obtain r ts where run: "runSimulation noDaysHeld defaultParams mixedSeries = Inr r"
    and ledger: "r_tradeHistory r = tradeHistory (afterLoop noDaysHeld defaultParams mixedSeries) @ ts"
    and forced: "map (\<lambda>t. (tradeKey t, t_exit t, t_exitPrice t, t_pnl t)) ts
               = map (\<lambda>pos. (positionKey pos, date (last mixedSeries),
                      currentPrice (last mixedSeries),
                      p_leveragedAmount pos
                        * ((currentPrice (last mixedSeries) - p_entryPrice pos) / p_entryPrice pos)))
                   (activePositions (afterLoop noDaysHeld defaultParams mixedSeries))"
    and keys: "mset (map tradeKey (r_tradeHistory r))
               = mset (map positionKey (openedPositions noDaysHeld defaultParams mixedSeries))"
    and count: "length (r_tradeHistory r) = r_totalTrades r"
    by blast
  from forced have "length ts = length (activePositions (afterLoop noDaysHeld defaultParams mixedSeries))"
    by (rule map_eq_imp_length_eq)
  also have "\<dots> = 1"
    using loop(2) [THEN arg_cong, of length] by simp
  finally have one: "length ts = 1" .
  have "length (r_tradeHistory r) = 2"
    using ledger one loop(1) [THEN arg_cong, of length] by simp
  with count have two: "r_totalTrades r = 2"
    by simp
  from valid nonempty loop run ledger one forced keys count two show ?thesis
    by blast
qed

section \<open>The trailing stop\<close>



lemma closeOnStop_cash:
  "currentCapital (closeOnStop dh params cur pos st)
     = currentCapital st + (p_baseAmount pos + stopPnl params pos)"
  "totalFees (closeOnStop dh params cur pos st) = totalFees st"
  by (simp_all add: closeOnStop_def Let_def stopExitPrice_def stopPnl_def calculateStopLossPrice_def)






section \<open>Entries\<close>

text \<open>
  Claim C5, as amended. The entry signal fires exactly when (current open - previous
  open) / previous open * 100 reaches the threshold; only long positions exist. The rule
  is evaluated on every processed day, whether or not positions are already open: with
  cash of at least 100 and a base amount of at least 1 a further position is appended
  to the open ones, and the skipped-trade counter stays. With cash below 100 a signal
  that fires increments the skipped-trade counter and changes nothing else. Without a
  signal the step changes nothing.
\<close>

theorem entry_signal_rule:
  "(shouldOpenPosition opening previousOpening threshold
      \<longleftrightarrow> (opening - previousOpening) / previousOpening * 100 \<ge> threshold)
   \<and> (\<not> shouldOpenPosition (openingPrice cur) (openingPrice previousData) (minPriceMovement params)
        \<longrightarrow> entryStep params previousData cur st = st)
   \<and> (shouldOpenPosition (openingPrice cur) (openingPrice previousData) (minPriceMovement params)
        \<and> currentCapital st < 100
        \<longrightarrow> entryStep params previousData cur st = st\<lparr>skippedTrades := skippedTrades st + 1\<rparr>)
   \<and> (shouldOpenPosition (openingPrice cur) (openingPrice previousData) (minPriceMovement params)
        \<and> currentCapital st \<ge> 100
        \<and> min (positionSizePercent params / 100 * currentCapital st) (currentCapital st) \<ge> 1
        \<longrightarrow> (\<exists>pos. activePositions (entryStep params previousData cur st) = activePositions st @ [pos]
               \<and> p_entryPrice pos = openingPrice cur \<and> p_entryDate pos = date cur)
            \<and> tradesExecuted (entryStep params previousData cur st) = tradesExecuted st + 1
            \<and> skippedTrades (entryStep params previousData cur st) = skippedTrades st)"
  by (simp add: shouldOpenPosition_def entryStep_def MIN_TRADING_CAPITAL_def Let_def)

theorem entry_signal_rule_witness:
  "shouldOpenPosition (openingPrice (risingSeries ! 2)) (openingPrice (risingSeries ! 1))
     (minPriceMovement defaultParams)
   \<and> currentCapital heldState \<ge> 100
   \<and> min (positionSizePercent defaultParams / 100 * currentCapital heldState)
        (currentCapital heldState) \<ge> 1
   \<and> length (activePositions heldState) = 1
   \<and> (\<exists>pos. activePositions (entryStep defaultParams (risingSeries ! 1) (risingSeries ! 2) heldState)
               = activePositions heldState @ [pos]
          \<and> p_entryPrice pos = openingPrice (risingSeries ! 2)
          \<and> p_entryDate pos = date (risingSeries ! 2))
   \<and> \<not> shouldOpenPosition (openingPrice (crashSeries ! 2)) (openingPrice (crashSeries ! 1))
         (minPriceMovement defaultParams)
   \<and> entryStep defaultParams (crashSeries ! 1) (crashSeries ! 2) heldState = heldState
   \<and> currentCapital brokeState < 100
   \<and> entryStep defaultParams (risingSeries ! 1) (risingSeries ! 2) brokeState
       = brokeState\<lparr>skippedTrades := skippedTrades brokeState + 1\<rparr>"
proof -
  have fired: "shouldOpenPosition (openingPrice (risingSeries ! 2)) (openingPrice (risingSeries ! 1))
     (minPriceMovement defaultParams)"
    by code_simp
  have quiet: "\<not> shouldOpenPosition (openingPrice (crashSeries ! 2)) (openingPrice (crashSeries ! 1))
         (minPriceMovement defaultParams)"
    by code_simp
  have cash: "currentCapital heldState \<ge> 100"
    "min (positionSizePercent defaultParams / 100 * currentCapital heldState)
        (currentCapital heldState) \<ge> 1"
    "length (activePositions heldState) = 1"
    "currentCapital brokeState < 100"
    by code_simp+
  from fired quiet cash
    entry_signal_rule [of _ _ _ "risingSeries ! 2" "risingSeries ! 1" defaultParams heldState]
    entry_signal_rule [of _ _ _ "crashSeries ! 2" "crashSeries ! 1" defaultParams heldState]
    entry_signal_rule [of _ _ _ "risingSeries ! 2" "risingSeries ! 1" defaultParams brokeState]
  show ?thesis by blast
qed

text \<open>
  The claim as stated fails on \<open>risingSeries\<close>: the position opened on the second day is
  still open on the third, and the third day opens another one beside it.
\<close>

theorem concurrent_entry_counterexample:
  "map p_entryDate (activePositions (afterLoop noDaysHeld defaultParams (take 2 risingSeries)))
     = [''2024-01-02'']
   \<and> map p_entryDate (activePositions (afterLoop noDaysHeld defaultParams risingSeries))
     = [''2024-01-02'', ''2024-01-03'']
   \<and> tradeHistory (afterLoop noDaysHeld defaultParams risingSeries) = []"
  by code_simp

text \<open>
  Claim C6. When the signal fires and cash is at least the trading floor, the base
  amount is min (positionSizePercent / 100 * cash, cash). Below 1 the signal is dropped
  and the state is unchanged (no position, and no counter moves). Otherwise a position
  with this base amount and the leveraged amount base * leverage is appended, and the
  base amount leaves cash at once. The base amount comes back with the profit when the
  position is closed, by its stop or at the end of the series; over a whole day, cash
  plus the base amounts of the open positions changes only by realized profit and fees.
\<close>

theorem position_sizing:
  assumes "currentCapital st \<ge> MIN_TRADING_CAPITAL"
    and "shouldOpenPosition (openingPrice cur) (openingPrice previousData) (minPriceMovement params)"
  shows "(let baseAmount = min (positionSizePercent params / 100 * currentCapital st) (currentCapital st)
          in (baseAmount < 1 \<longrightarrow> entryStep params previousData cur st = st)
           \<and> (baseAmount \<ge> 1 \<longrightarrow>
                entryStep params previousData cur st =
                  st\<lparr>activePositions := activePositions st @
                       [\<lparr>p_entryPrice = openingPrice cur, p_entryDate = date cur,
                         p_highestPrice = highestPrice cur,
                         p_baseAmount = baseAmount,
                         p_leveragedAmount = baseAmount * leverage params,
                         p_accumulatedFees = 0, p_lastFeeDate = date cur,
                         p_remainingCapitalAtEntry = currentCapital st\<rparr>],
                     currentCapital := currentCapital st - baseAmount,
                     tradesExecuted := tradesExecuted st + 1\<rparr>))
         \<and> currentCapital (closeOnStop dh params day pos st')
             = currentCapital st' + (p_baseAmount pos + stopPnl params pos)
         \<and> currentCapital (closeAtEnd dh lastPrice lastDate pos st')
             = currentCapital st' + (p_baseAmount pos
                 + p_leveragedAmount pos * (lastPrice - p_entryPrice pos) / p_entryPrice pos)
         \<and> currentCapital (processDay dh params previousData' day st')
               + committed (activePositions (processDay dh params previousData' day st'))
               - ledgerPnl (tradeHistory (processDay dh params previousData' day st'))
               + totalFees (processDay dh params previousData' day st')
             = currentCapital st' + committed (activePositions st')
               - ledgerPnl (tradeHistory st') + totalFees st'"
proof -
  have "fst (conserved (processDay dh params previousData' day st')) = fst (conserved st')"
    by (simp only: processDay_conserved)
  then have kept: "currentCapital (processDay dh params previousData' day st')
               + committed (activePositions (processDay dh params previousData' day st'))
               - ledgerPnl (tradeHistory (processDay dh params previousData' day st'))
               + totalFees (processDay dh params previousData' day st')
             = currentCapital st' + committed (activePositions st')
               - ledgerPnl (tradeHistory st') + totalFees st'"
    by (simp add: conserved_def balance_def)
  have close: "currentCapital (closeAtEnd dh lastPrice lastDate pos st')
             = currentCapital st' + (p_baseAmount pos
                 + p_leveragedAmount pos * (lastPrice - p_entryPrice pos) / p_entryPrice pos)"
    by (simp add: closeAtEnd_def Let_def)
  have entry: "(let baseAmount = min (positionSizePercent params / 100 * currentCapital st) (currentCapital st)
          in (baseAmount < 1 \<longrightarrow> entryStep params previousData cur st = st)
           \<and> (baseAmount \<ge> 1 \<longrightarrow>
                entryStep params previousData cur st =
                  st\<lparr>activePositions := activePositions st @
                       [\<lparr>p_entryPrice = openingPrice cur, p_entryDate = date cur,
                         p_highestPrice = highestPrice cur,
                         p_baseAmount = baseAmount,
                         p_leveragedAmount = baseAmount * leverage params,
                         p_accumulatedFees = 0, p_lastFeeDate = date cur,
                         p_remainingCapitalAtEntry = currentCapital st\<rparr>],
                     currentCapital := currentCapital st - baseAmount,
                     tradesExecuted := tradesExecuted st + 1\<rparr>))"
    using assms by (simp add: entryStep_def Let_def not_le [symmetric] del: min_less_iff_conj)
  from entry close kept closeOnStop_cash(1) [of dh params day pos st'] show ?thesis
    by blast
qed

theorem position_sizing_witness:
  "currentCapital (initialState defaultParams) \<ge> MIN_TRADING_CAPITAL
   \<and> shouldOpenPosition (openingPrice (crashSeries ! 1)) (openingPrice (crashSeries ! 0))
        (minPriceMovement defaultParams)
   \<and> min (positionSizePercent defaultParams / 100 * currentCapital (initialState defaultParams))
        (currentCapital (initialState defaultParams)) = 100
   \<and> map p_baseAmount (activePositions
        (entryStep defaultParams (crashSeries ! 0) (crashSeries ! 1) (initialState defaultParams)))
      = [100]
   \<and> map p_leveragedAmount (activePositions
        (entryStep defaultParams (crashSeries ! 0) (crashSeries ! 1) (initialState defaultParams)))
      = [100 * leverage defaultParams]
   \<and> currentCapital
        (entryStep defaultParams (crashSeries ! 0) (crashSeries ! 1) (initialState defaultParams))
      = investmentCapital defaultParams - 100"
proof -
  have floor: "currentCapital (initialState defaultParams) \<ge> MIN_TRADING_CAPITAL"
    by code_simp
  have fired: "shouldOpenPosition (openingPrice (crashSeries ! 1)) (openingPrice (crashSeries ! 0))
        (minPriceMovement defaultParams)"
    by code_simp
  have base: "min (positionSizePercent defaultParams / 100 * currentCapital (initialState defaultParams))
        (currentCapital (initialState defaultParams)) = 100"
    by code_simp
  have none: "activePositions (initialState defaultParams) = []"
    "currentCapital (initialState defaultParams) = investmentCapital defaultParams"
    by (simp_all add: initialState_def)
  from position_sizing [OF floor fired]
  have "entryStep defaultParams (crashSeries ! 0) (crashSeries ! 1) (initialState defaultParams) =
          (initialState defaultParams)\<lparr>activePositions := activePositions (initialState defaultParams) @
               [\<lparr>p_entryPrice = openingPrice (crashSeries ! 1), p_entryDate = date (crashSeries ! 1),
                 p_highestPrice = highestPrice (crashSeries ! 1),
                 p_baseAmount = 100,
                 p_leveragedAmount = 100 * leverage defaultParams,
                 p_accumulatedFees = 0, p_lastFeeDate = date (crashSeries ! 1),
                 p_remainingCapitalAtEntry = currentCapital (initialState defaultParams)\<rparr>],
             currentCapital := currentCapital (initialState defaultParams) - 100,
             tradesExecuted := tradesExecuted (initialState defaultParams) + 1\<rparr>"
    unfolding Let_def base by simp
  with floor fired base none show ?thesis
    by simp
qed

section \<open>The equity curve\<close>

lemma foldl_equity:
  "foldl (\<lambda>sum pos. sum + p_baseAmount pos + unrealizedPnL price pos) a ps
     = a + (\<Sum>pos\<leftarrow>ps. p_baseAmount pos
              + p_leveragedAmount pos * (price - p_entryPrice pos) / p_entryPrice pos)"
  by (induction ps arbitrary: a) (simp_all add: unrealizedPnL_def)

lemma exitLoop_equityCurve:
  "exitLoop dh params cur ps kept st = (kept', st') \<Longrightarrow> equityCurve st' = equityCurve st"
proof (induction ps arbitrary: kept st)
  case Nil
  then show ?case by simp
next
  case (Cons pos ps)
  then show ?case
    by (auto simp: Let_def closeOnStop_def split: if_splits)
qed

lemma equityCurve_steps:
  "equityCurve (feeStep params cur st) = equityCurve st"
  "equityCurve (exitStep dh params cur st) = equityCurve st"
  "equityCurve (entryStep params prev cur st) = equityCurve st"
  by (auto simp: feeStep_def exitStep_def entryStep_def Let_def split: prod.splits
      dest: exitLoop_equityCurve)

lemma processDay_equityCurve:
  "equityCurve (processDay dh params prev cur st)
     = equityCurve st @
       [(date cur,
         currentCapital (processDay dh params prev cur st)
         + (\<Sum>pos\<leftarrow>activePositions (processDay dh params prev cur st).
              p_baseAmount pos
              + p_leveragedAmount pos * (currentPrice cur - p_entryPrice pos) / p_entryPrice pos))]"
  by (simp add: processDay_def equityStep_def foldl_equity equityCurve_steps)

lemma dayLoop_dates:
  "\<exists>k \<le> length days.
     map fst (equityCurve (dayLoop dh params prev days st))
       = map fst (equityCurve st) @ take k (map date days)
     \<and> (k < length days \<longrightarrow>
          currentCapital (dayLoop dh params prev days st) \<le> 0
          \<and> activePositions (dayLoop dh params prev days st) = [])"
proof (induction days arbitrary: prev st)
  case Nil
  then show ?case by simp
next
  case (Cons cur days)
  show ?case
  proof (cases "currentCapital st \<le> 0 \<and> activePositions st = []")
    case True
    then show ?thesis
      by (intro exI [where x = 0]) simp
  next
    case False
    let ?st = "processDay dh params prev cur st"
    from Cons.IH [of cur ?st] obtain k where k: "k \<le> length days"
      "map fst (equityCurve (dayLoop dh params cur days ?st))
         = map fst (equityCurve ?st) @ take k (map date days)"
      "k < length days \<longrightarrow>
          currentCapital (dayLoop dh params cur days ?st) \<le> 0
          \<and> activePositions (dayLoop dh params cur days ?st) = []"
      by blast
    have "map fst (equityCurve ?st) = map fst (equityCurve st) @ [date cur]"
      by (subst processDay_equityCurve) simp
    with False k show ?thesis
      by (intro exI [where x = "Suc k"]) simp
  qed
qed

lemma liquidate_equityCurve:
  "equityCurve (liquidate dh lastPrice lastDate ps st) = equityCurve st"
  by (induction ps arbitrary: st) (simp_all add: closeAtEnd_def Let_def)

lemma afterLoop_dates:
  assumes "goldPriceHistory \<noteq> []"
  shows "prefix (map fst (equityCurve (afterLoop dh params goldPriceHistory)))
           (map date (tl goldPriceHistory))
         \<and> (map fst (equityCurve (afterLoop dh params goldPriceHistory))
              = map date (tl goldPriceHistory)
            \<or> currentCapital (afterLoop dh params goldPriceHistory) \<le> 0
              \<and> activePositions (afterLoop dh params goldPriceHistory) = [])"
proof -
  from assms obtain first days where h: "goldPriceHistory = first # days"
    by (cases goldPriceHistory) auto
  let ?st = "dayLoop dh params first days (initialState params)"
  from dayLoop_dates [of days dh params first "initialState params"]
  obtain k where k: "k \<le> length days"
    "map fst (equityCurve ?st) = take k (map date days)"
    "k < length days \<longrightarrow> currentCapital ?st \<le> 0 \<and> activePositions ?st = []"
    by (auto simp: initialState_def)
  have "prefix (take k (map date days)) (map date days)"
    by (rule take_is_prefix)
  moreover have "k = length days \<Longrightarrow> take k (map date days) = map date days"
    by simp
  ultimately show ?thesis
    using k by (cases "k = length days") (auto simp: h afterLoop_def)
qed

text \<open>
  Claim C7, as amended. Every processed day appends exactly one equity point, dated
  with the day, whose equity is the cash plus, for each position open at the end of the
  day, base amount + leveraged amount * (close - entry price) / entry price;
  accumulated fees are not subtracted. For valid parameters and a non-empty series, the
  dates of the curve are a prefix of the dates of the series after its first element,
  in the order of the series, one per row. They are all of them unless the loop stopped
  early, which it does only with cash at or below zero and no open position.
\<close>

theorem equity_curve_points:
  "equityCurve (processDay dh params previousData cur st)
     = equityCurve st @
       [(date cur,
         currentCapital (processDay dh params previousData cur st)
         + (\<Sum>pos\<leftarrow>activePositions (processDay dh params previousData cur st).
              p_baseAmount pos
              + p_leveragedAmount pos * (currentPrice cur - p_entryPrice pos) / p_entryPrice pos))]
   \<and> (validateParams params \<and> goldPriceHistory \<noteq> [] \<longrightarrow>
        (\<exists>r. runSimulation dh params goldPriceHistory = Inr r
           \<and> prefix (map fst (r_equityCurve r)) (map date (tl goldPriceHistory))
           \<and> (map fst (r_equityCurve r) = map date (tl goldPriceHistory)
              \<or> currentCapital (afterLoop dh params goldPriceHistory) \<le> 0
                \<and> activePositions (afterLoop dh params goldPriceHistory) = [])))"
proof (intro conjI impI)
  show "equityCurve (processDay dh params previousData cur st)
     = equityCurve st @
       [(date cur,
         currentCapital (processDay dh params previousData cur st)
         + (\<Sum>pos\<leftarrow>activePositions (processDay dh params previousData cur st).
              p_baseAmount pos
              + p_leveragedAmount pos * (currentPrice cur - p_entryPrice pos) / p_entryPrice pos))]"
    by (rule processDay_equityCurve)
next
  assume ok: "validateParams params \<and> goldPriceHistory \<noteq> []"
  let ?st = "afterLoop dh params goldPriceHistory"
  let ?fin = "liquidate dh (currentPrice (last goldPriceHistory)) (date (last goldPriceHistory))
                (activePositions ?st) ?st"
  have run: "runSimulation dh params goldPriceHistory = Inr (finish ?fin)"
    using ok by (simp add: runSimulation_def Let_def)
  have curve: "r_equityCurve (finish ?fin) = equityCurve ?st"
    by (simp add: finish_def liquidate_equityCurve)
  from ok afterLoop_dates [of goldPriceHistory dh params]
  show "\<exists>r. runSimulation dh params goldPriceHistory = Inr r
           \<and> prefix (map fst (r_equityCurve r)) (map date (tl goldPriceHistory))
           \<and> (map fst (r_equityCurve r) = map date (tl goldPriceHistory)
              \<or> currentCapital (afterLoop dh params goldPriceHistory) \<le> 0
                \<and> activePositions (afterLoop dh params goldPriceHistory) = [])"
    unfolding run by (simp add: curve)
qed

theorem equity_curve_points_witness:
  "validateParams defaultParams \<and> crashSeries \<noteq> []
   \<and> (\<exists>r. runSimulation noDaysHeld defaultParams crashSeries = Inr r
         \<and> prefix (map fst (r_equityCurve r)) (map date (tl crashSeries))
         \<and> map fst (r_equityCurve r) = map date (tl crashSeries))"
proof -
  have valid: "validateParams defaultParams \<and> crashSeries \<noteq> []"
    by code_simp
  have going: "\<not> (currentCapital (afterLoop noDaysHeld defaultParams crashSeries) \<le> 0
       \<and> activePositions (afterLoop noDaysHeld defaultParams crashSeries) = [])"
    by code_simp
  from valid going equity_curve_points [of noDaysHeld defaultParams _ _ _ crashSeries]
  show ?thesis by blast
qed

text \<open>
  The claim as stated fails when capital is exhausted: on \<open>wipeoutSeries\<close> the stop on
  the third day takes all cash, the loop stops before the fourth day, and the curve has
  two points for three dates after the first.
\<close>

theorem early_stop_counterexample:
  "validateParams allInParams
   \<and> map_sum id r_equityCurve (runSimulation noDaysHeld allInParams wipeoutSeries)
       = Inr [(''2024-01-02'', 10000), (''2024-01-03'', 0)]
   \<and> map date (tl wipeoutSeries) = [''2024-01-02'', ''2024-01-03'', ''2024-01-04'']"
  by code_simp

section \<open>The loss of a stopped trade\<close>

lemma stop_loss_bound:
  fixes e h s L :: real
  assumes "0 < e" and "e \<le> h" and "0 < s" and "s \<le> L"
  shows "- s \<le> L * (h * (1 - s / L) - e) / e"
proof -
  from assms have L: "0 < L" by simp
  have "L * (h * (1 - s / L) - e) = (L - s) * h - L * e"
    using L by (simp add: field_simps)
  moreover have "(L - s) * e \<le> (L - s) * h"
    using assms by (intro mult_left_mono) simp_all
  then have "((L - s) * e - L * e) / e \<le> ((L - s) * h - L * e) / e"
    using assms(1) by (intro divide_right_mono) simp_all
  moreover have "((L - s) * e - L * e) / e = - s"
    using assms(1) by (simp add: field_simps)
  ultimately show ?thesis by simp
qed


lemma feeLoop_prices:
  "feeLoop params d ps cap fees = (ps', cap', fees') \<Longrightarrow>
     \<forall>pos \<in> set ps. 0 < p_entryPrice pos \<and> p_entryPrice pos \<le> p_highestPrice pos \<Longrightarrow>
     \<forall>pos \<in> set ps'. 0 < p_entryPrice pos \<and> p_entryPrice pos \<le> p_highestPrice pos"
proof (induction ps arbitrary: cap fees ps' cap' fees')
  case Nil
  then show ?case by simp
next
  case (Cons pos ps)
  show ?case
  proof (cases "p_lastFeeDate pos \<noteq> d")
    case True
    show ?thesis
    proof (cases "cap \<ge> dailyFeePercent params / 100 * p_baseAmount pos")
      case paid: True
      obtain qs c f where rest: "feeLoop params d ps
          (cap - dailyFeePercent params / 100 * p_baseAmount pos)
          (fees + dailyFeePercent params / 100 * p_baseAmount pos) = (qs, c, f)"
        by (cases "feeLoop params d ps
          (cap - dailyFeePercent params / 100 * p_baseAmount pos)
          (fees + dailyFeePercent params / 100 * p_baseAmount pos)")
      from Cons.IH [OF rest] Cons.prems(2)
      have "\<forall>pos \<in> set qs. 0 < p_entryPrice pos \<and> p_entryPrice pos \<le> p_highestPrice pos"
        by simp
      with True paid rest Cons.prems show ?thesis
        by (auto simp: Let_def)
    next
      case False
      with True Cons.prems show ?thesis
        by (auto simp: Let_def)
    qed
  next
    case False
    obtain qs c f where rest: "feeLoop params d ps cap fees = (qs, c, f)"
      by (cases "feeLoop params d ps cap fees")
    from Cons.IH [OF rest] Cons.prems(2)
    have "\<forall>pos \<in> set qs. 0 < p_entryPrice pos \<and> p_entryPrice pos \<le> p_highestPrice pos"
      by simp
    with False rest Cons.prems show ?thesis
      by auto
  qed
qed

lemma feeStep_sound:
  assumes "sound params st"
  shows "sound params (feeStep params cur st)"
proof (cases "currentDate st \<noteq> Some (date cur)")
  case True
  obtain ps cap fees where loop:
    "feeLoop params (date cur) (activePositions st) (currentCapital st) (totalFees st) = (ps, cap, fees)"
    by (cases "feeLoop params (date cur) (activePositions st) (currentCapital st) (totalFees st)")
  from feeLoop_prices [OF loop] assms
  have "\<forall>pos \<in> set ps. 0 < p_entryPrice pos \<and> p_entryPrice pos \<le> p_highestPrice pos"
    by (simp add: sound_def)
  with assms True loop show ?thesis
    by (simp add: sound_def feeStep_def)
next
  case False
  with assms show ?thesis by (simp add: feeStep_def)
qed

lemma closeOnStop_trade:
  assumes "0 < stopLossDollar params"
    and "0 < p_entryPrice pos" and "p_entryPrice pos \<le> p_highestPrice pos"
    and "\<forall>t \<in> set (tradeHistory st).
           stopLossDollar params \<le> t_leveragedAmount t \<longrightarrow> - stopLossDollar params \<le> t_pnl t"
  shows "\<forall>t \<in> set (tradeHistory (closeOnStop dh params cur pos st)).
           stopLossDollar params \<le> t_leveragedAmount t \<longrightarrow> - stopLossDollar params \<le> t_pnl t"
    and "activePositions (closeOnStop dh params cur pos st) = activePositions st"
  using assms stop_loss_bound [of "p_entryPrice pos" "p_highestPrice pos" "stopLossDollar params"
      "p_leveragedAmount pos"]
  by (auto simp: closeOnStop_def Let_def calculateStopLossPrice_def)

lemma updateHighest_prices:
  "p_entryPrice (updateHighest cur pos) = p_entryPrice pos"
  "p_highestPrice pos \<le> p_highestPrice (updateHighest cur pos)"
  by (simp_all add: updateHighest_def)

lemma exitLoop_sound:
  assumes "0 < stopLossDollar params"
    and "exitLoop dh params cur ps kept st = (kept', st')"
    and "\<forall>pos \<in> set ps \<union> set kept. 0 < p_entryPrice pos \<and> p_entryPrice pos \<le> p_highestPrice pos"
    and "\<forall>t \<in> set (tradeHistory st).
           stopLossDollar params \<le> t_leveragedAmount t \<longrightarrow> - stopLossDollar params \<le> t_pnl t"
  shows "(\<forall>pos \<in> set kept'. 0 < p_entryPrice pos \<and> p_entryPrice pos \<le> p_highestPrice pos)
     \<and> (\<forall>t \<in> set (tradeHistory st').
           stopLossDollar params \<le> t_leveragedAmount t \<longrightarrow> - stopLossDollar params \<le> t_pnl t)"
  using assms(2-)
proof (induction ps arbitrary: kept st)
  case Nil
  then show ?case by simp
next
  case (Cons pos0 ps)
  let ?pos = "updateHighest cur pos0"
  from Cons.prems(2) have pos: "0 < p_entryPrice ?pos" "p_entryPrice ?pos \<le> p_highestPrice ?pos"
    using updateHighest_prices(1) [where cur = cur and pos = pos0]
      updateHighest_prices(2) [where cur = cur and pos = pos0] by auto
  show ?case
  proof (cases "isStopLossTriggered (lowestPrice cur) (p_highestPrice ?pos)
             (p_leveragedAmount ?pos) (stopLossDollar params) (useTrailingStop params)")
    case True
    with Cons.prems(1) have run: "exitLoop dh params cur ps kept (closeOnStop dh params cur ?pos st) = (kept', st')"
      by (simp add: Let_def)
    show ?thesis
    proof (rule Cons.IH [OF run])
      show "\<forall>pos \<in> set ps \<union> set kept. 0 < p_entryPrice pos \<and> p_entryPrice pos \<le> p_highestPrice pos"
        using Cons.prems(2) by simp
      show "\<forall>t \<in> set (tradeHistory (closeOnStop dh params cur ?pos st)).
           stopLossDollar params \<le> t_leveragedAmount t \<longrightarrow> - stopLossDollar params \<le> t_pnl t"
        using assms(1) pos Cons.prems(3) by (rule closeOnStop_trade(1))
    qed
  next
    case False
    with Cons.prems(1) have run: "exitLoop dh params cur ps (?pos # kept) st = (kept', st')"
      by (simp add: Let_def)
    show ?thesis
    proof (rule Cons.IH [OF run])
      show "\<forall>pos \<in> set ps \<union> set (?pos # kept). 0 < p_entryPrice pos \<and> p_entryPrice pos \<le> p_highestPrice pos"
        using Cons.prems(2) pos by simp
      show "\<forall>t \<in> set (tradeHistory st).
           stopLossDollar params \<le> t_leveragedAmount t \<longrightarrow> - stopLossDollar params \<le> t_pnl t"
        by (rule Cons.prems(3))
    qed
  qed
qed

lemma exitStep_sound:
  assumes "0 < stopLossDollar params" and "sound params st"
  shows "sound params (exitStep dh params cur st)"
proof -
  obtain kept st' where run: "exitLoop dh params cur (rev (activePositions st)) [] st = (kept, st')"
    by (cases "exitLoop dh params cur (rev (activePositions st)) [] st")
  from exitLoop_sound [OF assms(1) run] assms(2) run show ?thesis
    by (simp add: sound_def exitStep_def)
qed

lemma entryStep_sound:
  assumes "sound params st" and "0 < openingPrice cur" and "openingPrice cur \<le> highestPrice cur"
  shows "sound params (entryStep params prev cur st)"
  using assms by (simp add: sound_def entryStep_def Let_def)

lemma processDay_sound:
  assumes "0 < stopLossDollar params" and "sound params st"
    and "0 < openingPrice cur" and "openingPrice cur \<le> highestPrice cur"
  shows "sound params (processDay dh params prev cur st)"
proof -
  have "sound params (entryStep params prev cur (exitStep dh params cur (feeStep params cur st)))"
    using assms by (intro entryStep_sound exitStep_sound feeStep_sound)
  then show ?thesis
    by (simp add: processDay_def sound_def equityStep_def)
qed

lemma dayLoop_sound:
  assumes "0 < stopLossDollar params" and "sound params st"
    and "\<forall>d \<in> set days. 0 < openingPrice d \<and> openingPrice d \<le> highestPrice d"
  shows "sound params (dayLoop dh params prev days st)"
  using assms(2,3)
proof (induction days arbitrary: prev st)
  case Nil
  then show ?case by simp
next
  case (Cons cur days)
  show ?case
  proof (cases "currentCapital st \<le> 0 \<and> activePositions st = []")
    case True
    with Cons.prems show ?thesis by simp
  next
    case False
    from Cons.prems have "sound params (processDay dh params prev cur st)"
      by (intro processDay_sound assms(1)) simp_all
    with Cons.IH [of "processDay dh params prev cur st" cur] Cons.prems False show ?thesis
      by simp
  qed
qed

text \<open>
  Claim C10, as amended. Let the parameters be valid and let every price point open at
  a positive price not above its daily high, so that a position's highest price is never
  below its entry price. Then, in exact arithmetic, every trade that the day loop closed
  on its stop, with a stop-loss amount of at most its leveraged amount, has a profit of
  at least minus the stop-loss amount: the synthetic exit price caps the loss, however
  far the day's low fell. The program's double-precision result agrees with this bound
  up to rounding only. The trades of the day loop are those of the final ledger that
  precede the forced closes (see C3).
\<close>

theorem stop_loss_cap:
  assumes "validateParams params"
    and "\<forall>d \<in> set goldPriceHistory. 0 < openingPrice d \<and> openingPrice d \<le> highestPrice d"
  shows "\<forall>t \<in> set (tradeHistory (afterLoop dh params goldPriceHistory)).
           stopLossDollar params \<le> t_leveragedAmount t \<longrightarrow> - stopLossDollar params \<le> t_pnl t"
proof -
  from assms(1) have stop: "0 < stopLossDollar params"
    by (simp add: validateParams_def split: if_splits)
  have init: "sound params (initialState params)"
    by (simp add: sound_def initialState_def)
  have "sound params (afterLoop dh params goldPriceHistory)"
  proof (cases goldPriceHistory)
    case Nil
    with init show ?thesis by (simp add: afterLoop_def)
  next
    case (Cons first days)
    from assms(2) have "\<forall>d \<in> set days. 0 < openingPrice d \<and> openingPrice d \<le> highestPrice d"
      by (simp add: Cons)
    with stop init have "sound params (dayLoop dh params first days (initialState params))"
      by (rule dayLoop_sound)
    then show ?thesis
      by (simp add: afterLoop_def Cons)
  qed
  then show ?thesis
    by (simp add: sound_def)
qed

theorem stop_loss_cap_witness:
  "validateParams defaultParams
   \<and> map openingPrice crashSeries = [100, 100.5, 100.5]
   \<and> map highestPrice crashSeries = [100, 101, 101]
   \<and> map t_leveragedAmount (tradeHistory (afterLoop noDaysHeld defaultParams crashSeries)) = [10000]
   \<and> stopLossDollar defaultParams \<le> 10000
   \<and> - stopLossDollar defaultParams
        \<le> t_pnl (hd (tradeHistory (afterLoop noDaysHeld defaultParams crashSeries)))"
proof -
  have valid: "validateParams defaultParams"
    by code_simp
  have prices: "\<forall>d \<in> set crashSeries. 0 < openingPrice d \<and> openingPrice d \<le> highestPrice d"
    by code_simp
  have series: "map openingPrice crashSeries = [100, 100.5, 100.5]"
    "map highestPrice crashSeries = [100, 101, 101]"
    by code_simp+
  have trade: "map t_leveragedAmount (tradeHistory (afterLoop noDaysHeld defaultParams crashSeries)) = [10000]"
    "stopLossDollar defaultParams \<le> 10000"
    by code_simp+
  from trade(1) obtain t where ledger: "tradeHistory (afterLoop noDaysHeld defaultParams crashSeries) = [t]"
    and exposure: "t_leveragedAmount t = 10000"
    by auto
  from stop_loss_cap [OF valid prices, of noDaysHeld] ledger exposure trade(2)
  have "- stopLossDollar defaultParams \<le> t_pnl t"
    by simp
  with valid series trade ledger show ?thesis
    by simp
qed

text \<open>Rounding in binary64, by a certificate: a power of two that scales the number
  into the interval from \<open>2 ^ 52\<close> up to \<open>2 ^ 53\<close>.\<close>

lemma normalise_scaled:
  assumes "2 ^ 52 \<le> x * 2 ^ k" and "x * 2 ^ k < 2 ^ 53" and "k \<le> n"
  shows "normalise n x e = (x * 2 ^ k, e - int k)"
  using assms
proof (induction k arbitrary: n x e)
  case 0
  then show ?case by (cases n) simp_all
next
  case (Suc k)
  from Suc.prems(3) obtain n' where n: "n = Suc n'" and k: "k \<le> n'"
    by (cases n) simp_all
  have "0 < x * 2 ^ Suc k"
    using Suc.prems(1) by (rule less_le_trans [rotated]) simp
  then have pos: "0 < x"
    by (simp add: zero_less_mult_iff)
  have "x * 2 * 1 \<le> x * 2 * 2 ^ k"
    using pos by (intro mult_left_mono) simp_all
  also have "\<dots> < 2 ^ 53"
    using Suc.prems(2) by (simp add: mult.assoc)
  finally have "x * 2 < 2 ^ 53"
    by simp
  then have small: "x < 2 ^ 52"
    by simp
  have "normalise n' (x * 2) (e - 1) = (x * 2 * 2 ^ k, e - 1 - int k)"
    using Suc.prems(1,2) k by (intro Suc.IH) (simp_all add: mult.assoc)
  with small n show ?case
    by (simp add: mult.assoc)
qed

lemma binary64_scaled:
  assumes "x \<noteq> 0" and "2 ^ 52 \<le> \<bar>x\<bar> * 2 ^ k" and "\<bar>x\<bar> * 2 ^ k < 2 ^ 53"
    and "0 < k" and "k \<le> 2200"
  shows "binary64 x
     = (if x < 0 then - (of_int (roundHalfEven (\<bar>x\<bar> * 2 ^ k)) / 2 ^ k)
        else of_int (roundHalfEven (\<bar>x\<bar> * 2 ^ k)) / 2 ^ k)"
proof -
  have "normalise 2200 \<bar>x\<bar> 0 = (\<bar>x\<bar> * 2 ^ k, 0 - int k)"
    using assms(2,3,5) by (rule normalise_scaled)
  with assms(1,4) show ?thesis
    by (simp add: binary64_def Let_def)
qed

lemma rounded_drop: "binary64 (1 / 50) = 5764607523034235 / 288230376151711744"
  by (subst binary64_scaled [where k = 58]) (simp_all add: roundHalfEven_def Let_def)

lemma rounded_factor: "binary64 (282465768628677509 / 288230376151711744) = 2206763817411543 / 2251799813685248"
  by (subst binary64_scaled [where k = 53]) (simp_all add: roundHalfEven_def Let_def)

lemma rounded_exit: "binary64 (443559527299720143 / 4503599627370496) = 6930617614058127 / 70368744177664"
  by (subst binary64_scaled [where k = 46]) (simp_all add: roundHalfEven_def Let_def)

lemma rounded_move: "binary64 (- (141441175797105 / 70368744177664)) = - (141441175797105 / 70368744177664)"
  by (subst binary64_scaled [where k = 51]) (simp_all add: roundHalfEven_def Let_def)

lemma rounded_change: "binary64 (- (47147058599035 / 2357352929951744)) = - (2882303761517125 / 144115188075855872)"
  by (subst binary64_scaled [where k = 58]) (simp_all add: roundHalfEven_def Let_def)

lemma rounded_pnl: "binary64 (- (1801439850948203125 / 9007199254740992)) = - (3518437208883209 / 17592186044416)"
  by (subst binary64_scaled [where k = 45]) (simp_all add: roundHalfEven_def Let_def)

lemma boundary_pnl64:
  "stopClosePnl64 defaultParams boundaryPosition = - (3518437208883209 / 17592186044416)"
  by (simp add: stopClosePnl64_def calculateStopLossPrice64_def boundaryPosition_def
      defaultParams_def Let_def rounded_drop rounded_factor rounded_exit
      rounded_move rounded_change rounded_pnl)

text \<open>
  The claim as stated, an exact bound on the recorded profit, fails in the program's
  arithmetic. On \<open>flatEntrySeries\<close> the position is entered at 100.5 and never trades
  higher, so its highest price equals its entry price, and it is stopped on the third
  day. In exact arithmetic the profit is -200, the bound itself. In binary64 the
  stop-loss fraction 200 / 10000 is not representable, and the rounded exit price,
  price change and product give a profit of about -200.0000000000005, below -200.
\<close>

theorem stop_loss_cap_binary64_counterexample:
  "validateParams defaultParams
   \<and> map openingPrice flatEntrySeries = [100, 100.5, 100.5]
   \<and> map highestPrice flatEntrySeries = [100, 100.5, 100.5]
   \<and> activePositions (afterLoop noDaysHeld defaultParams (take 2 flatEntrySeries))
       = [boundaryPosition]
   \<and> map t_entry (tradeHistory (afterLoop noDaysHeld defaultParams flatEntrySeries))
       = [p_entryDate boundaryPosition]
   \<and> map t_pnl (tradeHistory (afterLoop noDaysHeld defaultParams flatEntrySeries)) = [- 200]
   \<and> stopLossDollar defaultParams = 200
   \<and> stopLossDollar defaultParams \<le> p_leveragedAmount boundaryPosition
   \<and> stopClosePnl64 defaultParams boundaryPosition = - (3518437208883209 / 17592186044416)
   \<and> stopClosePnl64 defaultParams boundaryPosition < - stopLossDollar defaultParams"
proof -
  have model: "validateParams defaultParams
     \<and> map openingPrice flatEntrySeries = [100, 100.5, 100.5]
     \<and> map highestPrice flatEntrySeries = [100, 100.5, 100.5]
     \<and> activePositions (afterLoop noDaysHeld defaultParams (take 2 flatEntrySeries))
         = [boundaryPosition]
     \<and> map t_entry (tradeHistory (afterLoop noDaysHeld defaultParams flatEntrySeries))
         = [p_entryDate boundaryPosition]
     \<and> map t_pnl (tradeHistory (afterLoop noDaysHeld defaultParams flatEntrySeries)) = [- 200]
     \<and> stopLossDollar defaultParams = 200
     \<and> stopLossDollar defaultParams \<le> p_leveragedAmount boundaryPosition"
    by code_simp
  then have stop: "stopLossDollar defaultParams = 200"
    by simp
  have "stopClosePnl64 defaultParams boundaryPosition < - stopLossDollar defaultParams"
    unfolding boundary_pnl64 stop by simp
  with model boundary_pnl64 show ?thesis
    by simp
qed

section \<open>Daily fees\<close>

text \<open>With cash that is not negative the fee loop leaves cash non-negative and never
  lowers the fee total.\<close>

lemma feeLoop_nonneg:
  assumes "0 \<le> dailyFeePercent params" and "\<forall>pos \<in> set ps. 0 \<le> p_baseAmount pos"
    and "0 \<le> cap" and "feeLoop params d ps cap fees = (ps', cap', fees')"
  shows "0 \<le> cap' \<and> fees \<le> fees'"
  using assms(2-)
proof (induction ps arbitrary: cap fees ps' cap' fees')
  case Nil
  then show ?case by simp
next
  case (Cons pos ps)
  have fee: "0 \<le> dailyFeePercent params / 100 * p_baseAmount pos"
    using assms(1) Cons.prems(1) by simp
  show ?case
  proof (cases "p_lastFeeDate pos \<noteq> d")
    case True
    show ?thesis
    proof (cases "cap \<ge> dailyFeePercent params / 100 * p_baseAmount pos")
      case paid: True
      obtain qs c f where rest: "feeLoop params d ps
          (cap - dailyFeePercent params / 100 * p_baseAmount pos)
          (fees + dailyFeePercent params / 100 * p_baseAmount pos) = (qs, c, f)"
        by (cases "feeLoop params d ps
          (cap - dailyFeePercent params / 100 * p_baseAmount pos)
          (fees + dailyFeePercent params / 100 * p_baseAmount pos)")
      from Cons.IH [OF _ _ rest] Cons.prems(1) paid
      have "0 \<le> c \<and> fees + dailyFeePercent params / 100 * p_baseAmount pos \<le> f"
        by simp
      with True paid rest Cons.prems(3) fee show ?thesis
        by (auto simp: Let_def)
    next
      case False
      with True Cons.prems show ?thesis
        by (auto simp: Let_def)
    qed
  next
    case False
    obtain qs c f where rest: "feeLoop params d ps cap fees = (qs, c, f)"
      by (cases "feeLoop params d ps cap fees")
    from Cons.IH [OF _ _ rest] Cons.prems(1,2)
    have "0 \<le> c \<and> fees \<le> f"
      by simp
    with False rest Cons.prems(3) show ?thesis
      by auto
  qed
qed

text \<open>When the date has not changed no fee is charged. On a new date, if cash covers
  the fees of all open positions, each is charged dailyFeePercent / 100 of its base
  amount, to cash, to the fee total and to its own accumulator. The first position whose
  fee exceeds the cash takes the cash that is left and ends the loop.\<close>

lemma feeLoop_all_paid:
  assumes "0 \<le> dailyFeePercent params"
    and "\<forall>pos \<in> set ps. p_lastFeeDate pos \<noteq> d \<and> 0 \<le> p_baseAmount pos"
    and "(\<Sum>pos\<leftarrow>ps. dailyFeePercent params / 100 * p_baseAmount pos) \<le> cap"
  shows "feeLoop params d ps cap fees =
      (map (\<lambda>pos. pos\<lparr>p_accumulatedFees :=
                           p_accumulatedFees pos + dailyFeePercent params / 100 * p_baseAmount pos,
                         p_lastFeeDate := d\<rparr>) ps,
       cap - (\<Sum>pos\<leftarrow>ps. dailyFeePercent params / 100 * p_baseAmount pos),
       fees + (\<Sum>pos\<leftarrow>ps. dailyFeePercent params / 100 * p_baseAmount pos))"
  using assms(2,3)
proof (induction ps arbitrary: cap fees)
  case Nil
  then show ?case by simp
next
  case (Cons pos ps)
  let ?fee = "dailyFeePercent params / 100 * p_baseAmount pos"
  let ?rest = "\<Sum>pos\<leftarrow>ps. dailyFeePercent params / 100 * p_baseAmount pos"
  have "0 \<le> ?rest"
    using assms(1) Cons.prems(1) by (intro sum_list_nonneg) auto
  with Cons.prems(2) have enough: "?fee \<le> cap" "?rest \<le> cap - ?fee"
    by simp_all
  from Cons.prems(1) have rest: "\<forall>pos \<in> set ps. p_lastFeeDate pos \<noteq> d \<and> 0 \<le> p_baseAmount pos"
    by simp
  from Cons.prems(1) have due: "p_lastFeeDate pos \<noteq> d"
    by simp
  show ?case
    using Cons.IH [OF rest enough(2), of "fees + ?fee"] due enough(1)
    by (simp add: Let_def algebra_simps)
qed

lemma feeLoop_partial:
  assumes "p_lastFeeDate pos \<noteq> d" and "cap < dailyFeePercent params / 100 * p_baseAmount pos"
  shows "feeLoop params d (pos # rest) cap fees =
      (pos\<lparr>p_accumulatedFees := p_accumulatedFees pos + cap\<rparr> # rest, 0, fees + cap)"
  using assms by (simp add: Let_def)

lemma feeStep_same_date:
  "currentDate st = Some (date cur) \<Longrightarrow> feeStep params cur st = st"
  by (simp add: feeStep_def)

text \<open>
  Claim C4 says that the fee total is never negative. On \<open>gapSeries\<close> with
  \<open>splitParams\<close>, which the parameter check accepts, the stop of the first position
  on the fourth day costs more than the cash and its base amount, and the second
  position stays open. On the fifth day cash is negative, the partial-payment branch
  books this negative cash as the fee paid and resets cash to zero, and the run reports
  a negative fee total.
\<close>

theorem negative_fee_total:
  "validateParams splitParams
   \<and> currentCapital (afterLoop noDaysHeld splitParams (take 4 gapSeries)) = - 12509.9975
   \<and> map p_baseAmount (activePositions (afterLoop noDaysHeld splitParams (take 4 gapSeries)))
       = [2497.5]
   \<and> totalFees (afterLoop noDaysHeld splitParams (take 4 gapSeries)) = 12.4975
   \<and> map_sum id r_totalFees (runSimulation noDaysHeld splitParams gapSeries) = Inr (- 12497.5)"
  by code_simp

section \<open>Consecutive losses\<close>

text \<open>The longest run of losses is the greatest length of a contiguous stretch of
  losses; appending a profit extends the run at the end of the list or breaks it.\<close>

lemma longestLossRun_Max:
  "longestLossRun pnls = Max (length ` {ys. sublist ys pnls \<and> (\<forall>y \<in> set ys. y < 0)})"
proof -
  have "set (map length (filter (list_all (\<lambda>x. x < 0)) (sublists pnls)))
      = length ` {ys. sublist ys pnls \<and> (\<forall>y \<in> set ys. y < 0)}"
    by (auto simp: list_all_iff)
  then show ?thesis
    by (simp only: longestLossRun_def)
qed

lemma finite_loss_runs: "finite (length ` {ys. sublist ys pnls \<and> (\<forall>y \<in> set ys. y < (0::real))})"
proof -
  have "{ys. sublist ys pnls \<and> (\<forall>y \<in> set ys. y < 0)} \<subseteq> set (sublists pnls)"
    by auto
  then have "finite {ys. sublist ys pnls \<and> (\<forall>y \<in> set ys. y < 0)}"
    by (rule finite_subset) simp
  then show ?thesis by simp
qed

lemma longestLossRun_ge:
  assumes "sublist ys pnls" and "\<forall>y \<in> set ys. y < 0"
  shows "length ys \<le> longestLossRun pnls"
  unfolding longestLossRun_Max using assms by (intro Max_ge finite_loss_runs) auto

lemma longestLossRun_attained:
  "\<exists>ys. sublist ys pnls \<and> (\<forall>y \<in> set ys. y < 0) \<and> length ys = longestLossRun pnls"
proof -
  have "[] \<in> {ys. sublist ys pnls \<and> (\<forall>y \<in> set ys. y < 0)}"
    by simp
  then have "length ` {ys. sublist ys pnls \<and> (\<forall>y \<in> set ys. y < 0)} \<noteq> {}"
    by blast
  from Max_in [OF finite_loss_runs this]
  show ?thesis
    unfolding longestLossRun_Max by auto
qed

lemma longestLossRun_le:
  assumes "\<And>ys. sublist ys pnls \<Longrightarrow> \<forall>y \<in> set ys. y < 0 \<Longrightarrow> length ys \<le> n"
  shows "longestLossRun pnls \<le> n"
proof -
  obtain ys where "sublist ys pnls" "\<forall>y \<in> set ys. y < 0" "length ys = longestLossRun pnls"
    using longestLossRun_attained by blast
  with assms [of ys] show ?thesis by simp
qed

lemma suffix_losses_le:
  assumes "suffix zs pnls" and "\<forall>z \<in> set zs. z < 0"
  shows "length zs \<le> trailingLosses pnls"
proof -
  from assms(1) obtain ps where "pnls = ps @ zs"
    by (auto simp: suffix_def)
  moreover from assms(2) have "\<And>z. z \<in> set (rev zs) \<Longrightarrow> z < 0"
    by simp
  then have "takeWhile (\<lambda>x. x < 0) (rev zs @ rev ps) = rev zs @ takeWhile (\<lambda>x. x < 0) (rev ps)"
    by (rule takeWhile_append2)
  ultimately have "takeWhile (\<lambda>x. x < 0) (rev pnls) = rev zs @ takeWhile (\<lambda>x. x < 0) (rev ps)"
    by simp
  then show ?thesis
    by (simp add: trailingLosses_def)
qed

lemma trailingLosses_snoc:
  "trailingLosses (pnls @ [x]) = (if x < 0 then trailingLosses pnls + 1 else 0)"
  by (simp add: trailingLosses_def)

lemma trailing_run:
  "\<exists>zs. suffix zs pnls \<and> (\<forall>z \<in> set zs. z < 0) \<and> length zs = trailingLosses pnls"
proof (intro exI conjI)
  let ?zs = "rev (takeWhile (\<lambda>x. x < 0) (rev pnls))"
  have "prefix (takeWhile (\<lambda>x. x < 0) (rev pnls)) (rev pnls)"
    by (rule takeWhile_is_prefix)
  then show "suffix ?zs pnls"
    by (simp add: suffix_to_prefix)
  show "\<forall>z \<in> set ?zs. z < 0"
    by (auto dest: set_takeWhileD)
  show "length ?zs = trailingLosses pnls"
    by (simp add: trailingLosses_def)
qed

lemma longestLossRun_snoc:
  "longestLossRun (pnls @ [x])
     = (if x < 0 then max (longestLossRun pnls) (trailingLosses pnls + 1) else longestLossRun pnls)"
proof (rule antisym)
  show "longestLossRun (pnls @ [x])
     \<le> (if x < 0 then max (longestLossRun pnls) (trailingLosses pnls + 1) else longestLossRun pnls)"
  proof (rule longestLossRun_le)
    fix ys
    assume sub: "sublist ys (pnls @ [x])" and neg: "\<forall>y \<in> set ys. y < 0"
    from sub consider "sublist ys pnls" | zs where "ys = zs @ [x]" "suffix zs pnls"
      by (auto simp: sublist_snoc)
    then show "length ys
       \<le> (if x < 0 then max (longestLossRun pnls) (trailingLosses pnls + 1) else longestLossRun pnls)"
    proof cases
      case 1
      from 1 neg have "length ys \<le> longestLossRun pnls"
        by (rule longestLossRun_ge)
      then show ?thesis by (simp add: le_max_iff_disj)
    next
      case 2
      with neg have x: "x < 0" and "\<forall>z \<in> set zs. z < 0"
        by simp_all
      with 2 have "length zs \<le> trailingLosses pnls"
        by (intro suffix_losses_le)
      with 2 x show ?thesis by (simp add: le_max_iff_disj)
    qed
  qed
next
  obtain ys where ys: "sublist ys pnls" "\<forall>y \<in> set ys. y < 0" "length ys = longestLossRun pnls"
    using longestLossRun_attained by blast
  from ys(1) have "sublist ys (pnls @ [x])"
    by (simp add: sublist_snoc)
  with ys have old: "longestLossRun pnls \<le> longestLossRun (pnls @ [x])"
    by (metis longestLossRun_ge)
  show "(if x < 0 then max (longestLossRun pnls) (trailingLosses pnls + 1) else longestLossRun pnls)
     \<le> longestLossRun (pnls @ [x])"
  proof (cases "x < 0")
    case True
    obtain zs where zs: "suffix zs pnls" "\<forall>z \<in> set zs. z < 0" "length zs = trailingLosses pnls"
      using trailing_run by blast
    from zs(1) have "suffix (zs @ [x]) (pnls @ [x])"
      by simp
    then have "sublist (zs @ [x]) (pnls @ [x])"
      by (rule suffix_imp_sublist)
    moreover have "\<forall>y \<in> set (zs @ [x]). y < 0"
      using zs(2) True by simp
    ultimately have "length (zs @ [x]) \<le> longestLossRun (pnls @ [x])"
      by (rule longestLossRun_ge)
    with zs(3) old True show ?thesis by simp
  next
    case False
    with old show ?thesis by simp
  qed
qed

lemma longestLossRun_Nil: "longestLossRun [] = 0"
  by (simp add: longestLossRun_def)

lemma trailingLosses_Nil: "trailingLosses [] = 0"
  by (simp add: trailingLosses_def)

lemma lossRunLoop_longest:
  "lossRunLoop (longestLossRun pnls) (trailingLosses pnls) trades
     = longestLossRun (pnls @ map tr_pnl trades)"
proof (induction trades arbitrary: pnls)
  case Nil
  then show ?case by simp
next
  case (Cons trade trades)
  have step: "lossRunLoop (longestLossRun (pnls @ [tr_pnl trade]))
      (trailingLosses (pnls @ [tr_pnl trade])) trades
      = longestLossRun (pnls @ tr_pnl trade # map tr_pnl trades)"
    using Cons.IH [of "pnls @ [tr_pnl trade]"] by simp
  show ?case
  proof (cases "tr_pnl trade < 0")
    case True
    with step show ?thesis
      by (simp add: longestLossRun_snoc trailingLosses_snoc)
  next
    case False
    with step show ?thesis
      by (simp add: longestLossRun_snoc trailingLosses_snoc)
  qed
qed

lemma calculateMaxConsecutiveLosses_longest:
  "calculateMaxConsecutiveLosses trades = longestLossRun (map tr_pnl trades)"
  using lossRunLoop_longest [of "[]" trades]
  by (simp add: calculateMaxConsecutiveLosses_def longestLossRun_Nil trailingLosses_Nil)

text \<open>The counters of \<^verbatim>\<open>runSimulation\<close> follow the ledger through the day loop, and the
  forced closes at the end leave them alone: the reported maximum is the longest run of
  losses among the trades closed by their stop.\<close>

lemma closeOnStop_streaks:
  "streaksAgree st \<Longrightarrow> streaksAgree (closeOnStop dh params cur pos st)"
  by (simp add: streaksAgree_def closeOnStop_def Let_def longestLossRun_snoc trailingLosses_snoc)

lemma exitLoop_streaks:
  "exitLoop dh params cur ps kept st = (kept', st') \<Longrightarrow> streaksAgree st \<Longrightarrow> streaksAgree st'"
proof (induction ps arbitrary: kept st)
  case Nil
  then show ?case by simp
next
  case (Cons pos ps)
  show ?case
  proof (cases "isStopLossTriggered (lowestPrice cur) (p_highestPrice (updateHighest cur pos))
             (p_leveragedAmount (updateHighest cur pos)) (stopLossDollar params) (useTrailingStop params)")
    case True
    with Cons.prems(1) have run: "exitLoop dh params cur ps kept
        (closeOnStop dh params cur (updateHighest cur pos) st) = (kept', st')"
      by (simp add: Let_def)
    have "streaksAgree (closeOnStop dh params cur (updateHighest cur pos) st)"
      using Cons.prems(2) by (rule closeOnStop_streaks)
    with run show ?thesis
      by (rule Cons.IH)
  next
    case False
    with Cons.prems(1) have "exitLoop dh params cur ps (updateHighest cur pos # kept) st = (kept', st')"
      by (simp add: Let_def)
    then show ?thesis
      using Cons.prems(2) by (rule Cons.IH)
  qed
qed

lemma processDay_streaks:
  assumes "streaksAgree st"
  shows "streaksAgree (processDay dh params prev cur st)"
proof -
  have fee: "streaksAgree (feeStep params cur st)"
    using assms by (auto simp: streaksAgree_def feeStep_def split: prod.splits)
  obtain kept st' where run: "exitLoop dh params cur (rev (activePositions (feeStep params cur st))) []
      (feeStep params cur st) = (kept, st')"
    by (cases "exitLoop dh params cur (rev (activePositions (feeStep params cur st))) []
      (feeStep params cur st)")
  from exitLoop_streaks [OF run fee] run
  have "streaksAgree (exitStep dh params cur (feeStep params cur st))"
    by (simp add: exitStep_def streaksAgree_def)
  then have "streaksAgree (entryStep params prev cur (exitStep dh params cur (feeStep params cur st)))"
    by (simp add: streaksAgree_def entryStep_def Let_def)
  then show ?thesis
    by (simp add: processDay_def streaksAgree_def equityStep_def)
qed

lemma dayLoop_streaks:
  "streaksAgree st \<Longrightarrow> streaksAgree (dayLoop dh params prev days st)"
  by (induction days arbitrary: prev st) (simp_all add: processDay_streaks)

lemma liquidate_counters:
  "maxConsecutiveLosses (liquidate dh lastPrice lastDate ps st) = maxConsecutiveLosses st"
  by (induction ps arbitrary: st) (simp_all add: closeAtEnd_def Let_def)

lemma reported_streak_ignores_forced_closes:
  assumes "validateParams params" and "goldPriceHistory \<noteq> []"
  shows "\<exists>r. runSimulation dh params goldPriceHistory = Inr r
           \<and> r_maxConsecutiveLosses r
               = longestLossRun (map t_pnl (tradeHistory (afterLoop dh params goldPriceHistory)))"
proof -
  have "streaksAgree (initialState params)"
    by (simp add: streaksAgree_def initialState_def longestLossRun_Nil trailingLosses_Nil)
  then have "streaksAgree (afterLoop dh params goldPriceHistory)"
    by (simp add: afterLoop_def dayLoop_streaks split: list.splits)
  with assms show ?thesis
    by (simp add: runSimulation_def Let_def finish_def liquidate_counters streaksAgree_def)
qed

text \<open>
  Claim C8 says that the reported maximum counts every trade of the ledger, forced
  closes included. On \<open>slideSeries\<close> the only trade is a forced close at a loss: the
  ledger's longest run of losses is 1 and the run reports 0, because only the stop path
  updates the counters.
\<close>

theorem liquidation_loss_not_counted:
  "validateParams defaultParams
   \<and> map_sum id r_maxConsecutiveLosses (runSimulation noDaysHeld defaultParams slideSeries) = Inr 0
   \<and> map_sum id (map t_pnl \<circ> r_tradeHistory) (runSimulation noDaysHeld defaultParams slideSeries)
       = Inr [- 10000 / 101]
   \<and> longestLossRun [- 10000 / 101] = 1"
  by code_simp

text \<open>\<^verbatim>\<open>calculateMaxConsecutiveLosses\<close> of \<^verbatim>\<open>utils.ts\<close> walks the whole ledger and does
  return the longest run (\<open>calculateMaxConsecutiveLosses_longest\<close>); on the pattern win,
  loss, loss, win, loss it gives 2.\<close>

lemma max_consecutive_losses_example:
  "calculateMaxConsecutiveLosses
     (map (\<lambda>x. \<lparr>tr_entry = [], tr_exit = [], tr_pnl = x, tr_type = [], tr_priceChange = [],
                 tr_marketExposure = 0, tr_entryPrice = 0, tr_exitPrice = 0, tr_holdingPeriod = 0\<rparr>)
        [5, - 1, - 2, 3, - 4]) = 2"
  "longestLossRun [5, - 1, - 2, 3, - 4] = 2"
  by code_simp+

section \<open>Metrics on degenerate inputs\<close>

text \<open>
  Claim C9 says that no metric is NaN on an empty ledger or a degenerate equity curve.
  \<^verbatim>\<open>calculatePerformanceMetrics\<close> on an empty ledger and an empty curve divides zero by
  zero for the win rate and for the mean return: win rate, Sharpe ratio, profit factor
  and volatility are NaN.
\<close>

theorem metrics_nan_on_empty_input:
  "m_winRate (calculatePerformanceMetrics [] []) = NaN
   \<and> m_sharpeRatio (calculatePerformanceMetrics [] []) = NaN
   \<and> m_profitFactor (calculatePerformanceMetrics [] []) = NaN
   \<and> m_dailyReturnVolatility (calculatePerformanceMetrics [] []) = NaN"
  by (simp add: calculatePerformanceMetrics_def dailyReturns_def Let_def)

text \<open>The guarded metrics do fall back to zero, and the success rate of
  \<^verbatim>\<open>runSimulation\<close> is 0 on an empty ledger and 0.75 on three wins and a loss.\<close>

lemma metrics_defaults_on_empty_input:
  "m_averageWin (calculatePerformanceMetrics [] []) = Fin 0"
  "m_averageLoss (calculatePerformanceMetrics [] []) = Fin 0"
  "m_maxDrawdown (calculatePerformanceMetrics [] []) = Fin 0"
  "m_maxConsecutiveLosses (calculatePerformanceMetrics [] []) = 0"
  by (simp_all add: calculatePerformanceMetrics_def dailyReturns_def Let_def
      calculateMaxConsecutiveLosses_def)

lemma successRate_examples:
  "successRateOf [] = 0"
  "t_pnl a > 0 \<Longrightarrow> t_pnl b > 0 \<Longrightarrow> t_pnl c > 0 \<Longrightarrow> t_pnl d < 0 \<Longrightarrow>
     successRateOf [a, b, c, d] = 0.75"
  by (simp_all add: successRateOf_def)

lemma results_defaults_without_trades:
  "r_successRate (finish (initialState params)) = 0"
  "r_avgProfitPerTrade (finish (initialState params)) = 0"
  "r_maxDrawdown (finish (initialState params)) = 0"
  by (simp_all add: finish_def initialState_def successRateOf_def calculateDrawdown_def)

end
